theory Spec2Isabelle
  imports Main
begin

section \<open>Text primitives of the host language\<close>

text \<open>
  The validator of \<^verbatim>\<open>_shared/sql-validator.ts\<close> works on JavaScript strings. A statement
  text is modelled as a \<^typ>\<open>string\<close>; a \<^typ>\<open>char\<close> stands for the UTF-16 code unit of
  the same number, so the model covers the texts whose code units are below 256. The
  character classes and case mappings below are the ones of the language on that range.
\<close>

definition isSpace :: "char \<Rightarrow> bool" where
  \<comment> \<open>\<^verbatim>\<open>\s\<close> and the characters removed by \<^verbatim>\<open>trim\<close>: TAB, LF, VT, FF, CR, SP, NBSP\<close>
  "isSpace c = (let n = (of_char c :: nat) in (9 \<le> n \<and> n \<le> 13) \<or> n = 32 \<or> n = 160)"

definition isLineTerminator :: "char \<Rightarrow> bool" where
  \<comment> \<open>the characters \<^verbatim>\<open>.\<close> refuses and before which \<^verbatim>\<open>$\<close> holds under the m flag\<close>
  "isLineTerminator c = (c = CHR 0x0A \<or> c = CHR 0x0D)"

definition isDigit :: "char \<Rightarrow> bool" where
  "isDigit c = (let n = (of_char c :: nat) in 48 \<le> n \<and> n \<le> 57)"

definition isIdentStart :: "char \<Rightarrow> bool" where
  \<comment> \<open>\<^verbatim>\<open>[a-zA-Z_]\<close>\<close>
  "isIdentStart c = (let n = (of_char c :: nat) in
     (65 \<le> n \<and> n \<le> 90) \<or> (97 \<le> n \<and> n \<le> 122) \<or> n = 95)"

definition isWordChar :: "char \<Rightarrow> bool" where
  \<comment> \<open>\<^verbatim>\<open>\w\<close> and \<^verbatim>\<open>[a-zA-Z0-9_]\<close>\<close>
  "isWordChar c = (isIdentStart c \<or> isDigit c)"

definition upperChar :: "char \<Rightarrow> string" where
  \<comment> \<open>\<^verbatim>\<open>toUpperCase\<close> on one code unit; the sharp s becomes two letters. The images of
      0xB5 and 0xFF lie above 255 and are no letter of any pattern: they are kept as they are.\<close>
  "upperChar c = (let n = (of_char c :: nat) in
     if 97 \<le> n \<and> n \<le> 122 then [char_of (n - 32)]
     else if n = 223 then ''SS''
     else if 224 \<le> n \<and> n \<le> 254 \<and> n \<noteq> 247 then [char_of (n - 32)]
     else [c])"

definition lowerChar :: "char \<Rightarrow> char" where
  "lowerChar c = (let n = (of_char c :: nat) in
     if 65 \<le> n \<and> n \<le> 90 then char_of (n + 32)
     else if 192 \<le> n \<and> n \<le> 222 \<and> n \<noteq> 215 then char_of (n + 32)
     else c)"

text \<open>
  The same classes and mappings, read off the eight bits of a character (least
  significant bit first); evaluation uses these equations.
\<close>

lemma isSpace_Char [code]:
  "isSpace (Char b0 b1 b2 b3 b4 b5 b6 b7) =
     ((\<not> b7 \<and> \<not> b6 \<and> \<not> b5 \<and> \<not> b4 \<and> b3 \<and> ((\<not> b2 \<and> (b0 \<or> b1)) \<or> (b2 \<and> \<not> b1)))
      \<or> (\<not> b6 \<and> b5 \<and> \<not> b4 \<and> \<not> b3 \<and> \<not> b2 \<and> \<not> b1 \<and> \<not> b0))"
  by (cases b0; cases b1; cases b2; cases b3; cases b4; cases b5; cases b6; cases b7;
      simp add: isSpace_def)

lemma isDigit_Char [code]:
  "isDigit (Char b0 b1 b2 b3 b4 b5 b6 b7) =
     (\<not> b7 \<and> \<not> b6 \<and> b5 \<and> b4 \<and> (\<not> b3 \<or> (\<not> b2 \<and> \<not> b1)))"
  by (cases b0; cases b1; cases b2; cases b3; cases b4; cases b5; cases b6; cases b7;
      simp add: isDigit_def)

lemma isIdentStart_Char [code]:
  "isIdentStart (Char b0 b1 b2 b3 b4 b5 b6 b7) =
     (\<not> b7 \<and> b6 \<and>
      (((b0 \<or> b1 \<or> b2 \<or> b3 \<or> b4) \<and> \<not> (b4 \<and> b3 \<and> (b2 \<or> (b1 \<and> b0))))
       \<or> (\<not> b5 \<and> b4 \<and> b3 \<and> b2 \<and> b1 \<and> b0)))"
  by (cases b0; cases b1; cases b2; cases b3; cases b4; cases b5; cases b6; cases b7;
      simp add: isIdentStart_def)

lemma upperChar_Char [code]:
  "upperChar (Char b0 b1 b2 b3 b4 b5 b6 b7) =
     (if b5 \<and> b6 \<and> (if b7 then \<not> (b0 \<and> b1 \<and> b2 \<and> b4)
                     else (b0 \<or> b1 \<or> b2 \<or> b3 \<or> b4) \<and> \<not> (b4 \<and> b3 \<and> (b2 \<or> (b1 \<and> b0))))
      then [Char b0 b1 b2 b3 b4 False b6 b7]
      else if b0 \<and> b1 \<and> b2 \<and> b3 \<and> b4 \<and> \<not> b5 \<and> b6 \<and> b7 then ''SS''
      else [Char b0 b1 b2 b3 b4 b5 b6 b7])"
  by (cases b0; cases b1; cases b2; cases b3; cases b4; cases b5; cases b6; cases b7;
      simp add: upperChar_def char_of_def bit_Suc_0_iff)

lemma lowerChar_Char [code]:
  "lowerChar (Char b0 b1 b2 b3 b4 b5 b6 b7) =
     (if \<not> b5 \<and> b6 \<and> (if b7 then \<not> (b0 \<and> b1 \<and> b2 \<and> b4)
                       else (b0 \<or> b1 \<or> b2 \<or> b3 \<or> b4) \<and> \<not> (b4 \<and> b3 \<and> (b2 \<or> (b1 \<and> b0))))
      then Char b0 b1 b2 b3 b4 True b6 b7
      else Char b0 b1 b2 b3 b4 b5 b6 b7)"
  by (cases b0; cases b1; cases b2; cases b3; cases b4; cases b5; cases b6; cases b7;
      simp add: lowerChar_def char_of_def bit_Suc_0_iff)

definition str_toUpperCase :: "string \<Rightarrow> string" where
  "str_toUpperCase s = concat (map upperChar s)"

definition str_toLowerCase :: "string \<Rightarrow> string" where
  "str_toLowerCase s = map lowerChar s"

definition str_trim :: "string \<Rightarrow> string" where
  "str_trim s = rev (dropWhile isSpace (rev (dropWhile isSpace s)))"

definition str_startsWith :: "string \<Rightarrow> string \<Rightarrow> bool" where
  "str_startsWith s p = (take (length p) s = p)"

fun str_includes :: "string \<Rightarrow> string \<Rightarrow> bool" where
  "str_includes [] p = (p = [])"
| "str_includes (c # cs) p = (str_startsWith (c # cs) p \<or> str_includes cs p)"

fun str_split :: "char \<Rightarrow> string \<Rightarrow> string list" where
  \<comment> \<open>\<^verbatim>\<open>split\<close> on a one-character separator; the empty text gives one empty fragment\<close>
  "str_split sep [] = [[]]"
| "str_split sep (c # cs) =
     (if c = sep then [] # str_split sep cs
      else (case str_split sep cs of
              [] \<Rightarrow> [[c]]
            | f # fs \<Rightarrow> (c # f) # fs))"

fun str_join :: "string \<Rightarrow> string list \<Rightarrow> string" where
  "str_join sep [] = []"
| "str_join sep [x] = x"
| "str_join sep (x # y # ys) = x @ sep @ str_join sep (y # ys)"

fun digitsToNat :: "nat \<Rightarrow> string \<Rightarrow> nat" where
  \<comment> \<open>\<^verbatim>\<open>parseInt(ds, 10)\<close> on a run of decimal digits\<close>
  "digitsToNat acc [] = acc"
| "digitsToNat acc (d # ds) = digitsToNat (10 * acc + (of_char d - 48)) ds"

fun natToString :: "nat \<Rightarrow> string" where
  \<comment> \<open>the decimal text a template literal gives a number\<close>
  "natToString n =
     (if n < 10 then [char_of (48 + n)] else natToString (n div 10) @ [char_of (48 + n mod 10)])"

declare natToString.simps [simp del]

subsection \<open>Regular-expression machinery\<close>

definition canon :: "char \<Rightarrow> char" where
  \<comment> \<open>the canonical form compared under the i flag: the upper case when it is one code unit\<close>
  "canon c = (case upperChar c of [u] \<Rightarrow> u | _ \<Rightarrow> c)"

definition ciPrefix :: "string \<Rightarrow> string \<Rightarrow> bool" where
  \<comment> \<open>the literal \<open>p\<close> matches at the head of \<open>s\<close>, letters compared without case\<close>
  "ciPrefix p s = (map canon (take (length p) s) = map canon p)"

definition isWordOpt :: "char option \<Rightarrow> bool" where
  "isWordOpt x = (case x of None \<Rightarrow> False | Some c \<Rightarrow> isWordChar c)"

definition headOpt :: "string \<Rightarrow> char option" where
  "headOpt s = (case s of [] \<Rightarrow> None | c # _ \<Rightarrow> Some c)"

definition wordBoundary :: "char option \<Rightarrow> string \<Rightarrow> bool" where
  \<comment> \<open>\<^verbatim>\<open>\b\<close> between the character before the position and the text at the position\<close>
  "wordBoundary prev rest = (isWordOpt prev \<noteq> isWordOpt (headOpt rest))"

fun firstMatch :: "(string \<Rightarrow> 'a option) \<Rightarrow> string \<Rightarrow> 'a option" where
  \<comment> \<open>\<^verbatim>\<open>String.match\<close> without the g flag: the match at the leftmost position that has one\<close>
  "firstMatch m [] = m []"
| "firstMatch m (c # cs) = (case m (c # cs) of Some r \<Rightarrow> Some r | None \<Rightarrow> firstMatch m cs)"

fun execAll :: "(char option \<Rightarrow> string \<Rightarrow> ('a \<times> nat) option) \<Rightarrow> nat \<Rightarrow> char option \<Rightarrow> string \<Rightarrow> 'a list" where
  \<comment> \<open>the \<^verbatim>\<open>while ((match = re.exec(s)) !== null)\<close> loop of a g-flagged expression: the matcher
      gives the capture and the length of the match at a position; the search resumes at
      the end of each match (\<open>skip\<close> counts the characters of the match still to pass)\<close>
  "execAll m skip prev [] = []"
| "execAll m skip prev (c # cs) =
     (if 0 < skip then execAll m (skip - 1) (Some c) cs
      else (case m prev (c # cs) of
              Some (cap, n) \<Rightarrow> cap # execAll m (n - 1) (Some c) cs
            | None \<Rightarrow> execAll m 0 (Some c) cs))"

fun searchFirst :: "(char option \<Rightarrow> string \<Rightarrow> ('a \<times> nat) option) \<Rightarrow> char option \<Rightarrow> string \<Rightarrow> 'a option" where
  \<comment> \<open>\<^verbatim>\<open>String.match\<close> without the g flag, for an expression that looks at the character before\<close>
  "searchFirst m prev [] = None"
| "searchFirst m prev (c # cs) =
     (case m prev (c # cs) of
        Some (cap, n) \<Rightarrow> Some cap
      | None \<Rightarrow> searchFirst m (Some c) cs)"

fun replaceFirst :: "(char option \<Rightarrow> string \<Rightarrow> ('a \<times> nat) option) \<Rightarrow> string \<Rightarrow> char option \<Rightarrow> string \<Rightarrow> string" where
  \<comment> \<open>\<^verbatim>\<open>String.replace\<close> without the g flag: the leftmost match becomes \<open>repl\<close>\<close>
  "replaceFirst m repl prev [] = []"
| "replaceFirst m repl prev (c # cs) =
     (case m prev (c # cs) of
        Some (cap, n) \<Rightarrow> repl @ drop n (c # cs)
      | None \<Rightarrow> c # replaceFirst m repl (Some c) cs)"

fun lazyCapture :: "(string \<Rightarrow> bool) \<Rightarrow> string \<Rightarrow> string option" where
  \<comment> \<open>\<^verbatim>\<open>([\s\S]+?)\<close> before a continuation: the shortest non-empty capture after which
      the continuation \<open>stop\<close> matches\<close>
  "lazyCapture stop [] = None"
| "lazyCapture stop (c # cs) =
     (if stop cs then Some [c] else map_option ((#) c) (lazyCapture stop cs))"

fun tryDown :: "(string \<Rightarrow> 'a option) \<Rightarrow> string \<Rightarrow> nat \<Rightarrow> 'a option" where
  \<comment> \<open>a greedy run in front of a continuation: the longest run is tried first, then each
      shorter one, down to one character\<close>
  "tryDown cont r 0 = None"
| "tryDown cont r (Suc k) =
     (case cont (drop (Suc k) r) of Some x \<Rightarrow> Some x | None \<Rightarrow> tryDown cont r k)"

definition afterSpaces :: "(string \<Rightarrow> 'a option) \<Rightarrow> string \<Rightarrow> 'a option" where
  \<comment> \<open>\<^verbatim>\<open>\s+\<close> followed by the continuation\<close>
  "afterSpaces cont r = tryDown cont r (length (takeWhile isSpace r))"

section \<open>Comment stripper\<close>

lemma dropWhile_shorter [termination_simp]: "length (dropWhile P xs) < Suc (length xs)"
  by (simp add: le_imp_less_Suc length_dropWhile_le)

lemma tl_dropWhile_shorter [termination_simp]:
  "length (dropWhile P xs) - Suc 0 < Suc (length xs)"
  using length_dropWhile_le [of P xs] by arith

fun stripDashComments :: "string \<Rightarrow> string" where
  \<comment> \<open>\<^verbatim>\<open>replace(/--.*$/gm, ' ')\<close>\<close>
  "stripDashComments (c # d # cs) =
     (if c = CHR ''-'' \<and> d = CHR ''-''
      then CHR '' '' # stripDashComments (dropWhile (\<lambda>x. \<not> isLineTerminator x) cs)
      else c # stripDashComments (d # cs))"
| "stripDashComments cs = cs"

fun findBlockEnd :: "string \<Rightarrow> string option" where
  \<comment> \<open>the text after the first \<^verbatim>\<open>*/\<close>, if there is one\<close>
  "findBlockEnd (a # b # cs) =
     (if a = CHR ''*'' \<and> b = CHR ''/'' then Some cs else findBlockEnd (b # cs))"
| "findBlockEnd cs = None"

lemma findBlockEnd_shorter: "findBlockEnd s = Some r \<Longrightarrow> length r < length s"
  by (induction s rule: findBlockEnd.induct) (auto split: if_splits)

function stripBlockComments :: "string \<Rightarrow> string" where
  \<comment> \<open>\<^verbatim>\<open>replace(/\/\*[\s\S]*?\*\//g, ' ')\<close>\<close>
  "stripBlockComments (c # d # cs) =
     (if c = CHR ''/'' \<and> d = CHR ''*''
      then (case findBlockEnd cs of
              Some rest \<Rightarrow> CHR '' '' # stripBlockComments rest
            | None \<Rightarrow> c # stripBlockComments (d # cs))
      else c # stripBlockComments (d # cs))"
| "stripBlockComments [c] = [c]"
| "stripBlockComments [] = []"
  by pat_completeness auto
termination
  by (relation "measure length") (auto dest: findBlockEnd_shorter)

fun stripHashComments :: "string \<Rightarrow> string" where
  \<comment> \<open>\<^verbatim>\<open>replace(/#.*$/gm, ' ')\<close>\<close>
  "stripHashComments [] = []"
| "stripHashComments (c # cs) =
     (if c = CHR ''#''
      then CHR '' '' # stripHashComments (dropWhile (\<lambda>x. \<not> isLineTerminator x) cs)
      else c # stripHashComments cs)"

definition removeComments :: "string \<Rightarrow> string" where
  "removeComments sql = str_trim (stripHashComments (stripBlockComments (stripDashComments sql)))"

section \<open>Statement splitter\<close>

fun removeQuoted :: "char \<Rightarrow> string \<Rightarrow> string" where
  \<comment> \<open>\<^verbatim>\<open>replace(/'[^']*'/g, '')\<close> for the quote \<open>q\<close>: an opening quote with no closing one
      matches nowhere\<close>
  "removeQuoted q [] = []"
| "removeQuoted q (c # cs) =
     (if c = q
      then (if q \<in> set cs then removeQuoted q (tl (dropWhile (\<lambda>x. x \<noteq> q) cs)) else c # cs)
      else c # removeQuoted q cs)"

definition hasMultipleStatements :: "string \<Rightarrow> bool" where
  "hasMultipleStatements sql =
     (let cleaned = removeComments sql;
          noStrings = removeQuoted (CHR 0x22) (removeQuoted (CHR 0x27) cleaned);
          statements = filter (\<lambda>s. 0 < length (str_trim s)) (str_split (CHR '';'') noStrings)
      in 1 < length statements)"

section \<open>Operation classifier\<close>

datatype OperationType = SELECT | INSERT | UPDATE | DELETE | DDL | UNKNOWN

definition DDL_KEYWORDS :: "string list" where
  "DDL_KEYWORDS = [''DROP'', ''ALTER'', ''TRUNCATE'', ''CREATE'', ''GRANT'', ''REVOKE'']"

definition ddlLeading :: "string \<Rightarrow> string \<Rightarrow> bool" where
  \<comment> \<open>\<^verbatim>\<open>new RegExp(`^${keyword}\\b`).test(cleaned)\<close>\<close>
  "ddlLeading kw s =
     (str_startsWith s kw \<and> wordBoundary (Some (last kw)) (drop (length kw) s))"

definition ddlObjectAt :: "string \<Rightarrow> string \<Rightarrow> bool" where
  \<comment> \<open>\<^verbatim>\<open>${keyword}\s+(TABLE|INDEX|VIEW|DATABASE)\<close> at the head of the text, i flag\<close>
  "ddlObjectAt kw s =
     (ciPrefix kw s \<and>
      afterSpaces (\<lambda>r. if list_ex (\<lambda>w. ciPrefix w r) [''TABLE'', ''INDEX'', ''VIEW'', ''DATABASE'']
                        then Some () else None)
        (drop (length kw) s) \<noteq> None)"

fun ddlObjectSearch :: "string \<Rightarrow> char option \<Rightarrow> string \<Rightarrow> bool" where
  \<comment> \<open>\<^verbatim>\<open>new RegExp(`\\b${keyword}\\s+(TABLE|INDEX|VIEW|DATABASE)`, 'i').test(cleaned)\<close>\<close>
  "ddlObjectSearch kw prev [] = False"
| "ddlObjectSearch kw prev (c # cs) =
     ((wordBoundary prev (c # cs) \<and> ddlObjectAt kw (c # cs)) \<or> ddlObjectSearch kw (Some c) cs)"

definition detectOperationType :: "string \<Rightarrow> OperationType" where
  "detectOperationType sql =
     (let cleaned = str_trim (str_toUpperCase (removeComments sql)) in
      if list_ex (\<lambda>keyword. ddlLeading keyword cleaned \<or> ddlObjectSearch keyword None cleaned)
           DDL_KEYWORDS
      then DDL
      else if str_startsWith cleaned ''SELECT'' \<or> str_startsWith cleaned ''WITH'' then SELECT
      else if str_startsWith cleaned ''INSERT'' then INSERT
      else if str_startsWith cleaned ''UPDATE'' then UPDATE
      else if str_startsWith cleaned ''DELETE'' then DELETE
      else UNKNOWN)"

section \<open>Table and column extractor\<close>

definition setAdd :: "'a list \<Rightarrow> 'a \<Rightarrow> 'a list" where
  \<comment> \<open>\<^verbatim>\<open>Set.add\<close>: a set keeps its members in the order of their first insertion\<close>
  "setAdd xs x = (if x \<in> set xs then xs else xs @ [x])"

definition identAt :: "string \<Rightarrow> (string \<times> nat) option" where
  \<comment> \<open>\<^verbatim>\<open>([a-zA-Z_][a-zA-Z0-9_]*)\<close> at the head of the text: the identifier and its length\<close>
  "identAt s =
     (case s of
        [] \<Rightarrow> None
      | c # _ \<Rightarrow> if isIdentStart c
                 then (let name = takeWhile isWordChar s in Some (name, length name))
                 else None)"

fun wordsThenIdent :: "string list \<Rightarrow> string \<Rightarrow> (string \<times> nat) option" where
  \<comment> \<open>\<^verbatim>\<open>K1\s+K2\s+ ... ([a-zA-Z_][a-zA-Z0-9_]*)\<close> at the head of the text, i flag\<close>
  "wordsThenIdent [] s = identAt s"
| "wordsThenIdent (k # ks) s =
     (if ciPrefix k s
      then afterSpaces
             (\<lambda>r. map_option (\<lambda>(name, n). (name, length s - length r + n)) (wordsThenIdent ks r))
             (drop (length k) s)
      else None)"

definition tableRegex :: "string list \<Rightarrow> char option \<Rightarrow> string \<Rightarrow> (string \<times> nat) option" where
  \<comment> \<open>\<^verbatim>\<open>\bK1\s+ ... ([a-zA-Z_][a-zA-Z0-9_]*)\<close>\<close>
  "tableRegex ks prev s = (if wordBoundary prev s then wordsThenIdent ks s else None)"

definition extractTableNames :: "string \<Rightarrow> string list" where
  "extractTableNames sql =
     (let cleaned = removeComments sql;
          found = (\<lambda>ks. map str_toLowerCase (execAll (tableRegex ks) 0 None cleaned));
          tables = foldl setAdd [] (found [''FROM'']);
          tables = foldl setAdd tables (found [''JOIN'']);
          tables = foldl setAdd tables (found [''INSERT'', ''INTO'']);
          tables = foldl setAdd tables (found [''UPDATE'']);
          tables = foldl setAdd tables (found [''DELETE'', ''FROM''])
      in tables)"

definition spacesThenFrom :: "string \<Rightarrow> bool" where
  \<comment> \<open>\<^verbatim>\<open>\s+FROM\<close> at the head of the text\<close>
  "spacesThenFrom s =
     (afterSpaces (\<lambda>r. if ciPrefix ''FROM'' r then Some () else None) s \<noteq> None)"

definition selectRegex :: "string \<Rightarrow> string option" where
  \<comment> \<open>\<^verbatim>\<open>/SELECT\s+([\s\S]+?)\s+FROM/i\<close> at the head of the text: the capture\<close>
  "selectRegex s =
     (if ciPrefix ''SELECT'' s then afterSpaces (lazyCapture spacesThenFrom) (drop 6 s) else None)"

definition insertRegex :: "string \<Rightarrow> string option" where
  \<comment> \<open>\<^verbatim>\<open>/INSERT\s+INTO\s+\w+\s*\(([^)]+)\)/i\<close> at the head of the text: the capture\<close>
  "insertRegex s =
     (if ciPrefix ''INSERT'' s
      then afterSpaces
        (\<lambda>r. if ciPrefix ''INTO'' r
              then afterSpaces
                (\<lambda>t. tryDown
                   (\<lambda>u. case dropWhile isSpace u of
                           [] \<Rightarrow> None
                         | p # v \<Rightarrow>
                             if p = CHR ''(''
                             then (let cols = takeWhile (\<lambda>x. x \<noteq> CHR '')'') v in
                                   if cols \<noteq> [] \<and> length cols < length v then Some cols else None)
                             else None)
                   t (length (takeWhile isWordChar t)))
                (drop 4 r)
              else None)
        (drop 6 s)
      else None)"

definition stopAt :: "string list \<Rightarrow> string \<Rightarrow> bool" where
  \<comment> \<open>\<^verbatim>\<open>(?:W1|W2|...|$)\<close> at the head of the text, no m flag: a stop word or the end\<close>
  "stopAt ws s = (list_ex (\<lambda>w. ciPrefix w s) ws \<or> s = [])"

definition clauseRegex :: "string \<Rightarrow> string list \<Rightarrow> string \<Rightarrow> string option" where
  \<comment> \<open>\<^verbatim>\<open>/KW\s+([\s\S]+?)(?:W1|...|$)/i\<close> at the head of the text: the capture\<close>
  "clauseRegex kw ws s =
     (if ciPrefix kw s then afterSpaces (lazyCapture (stopAt ws)) (drop (length kw) s) else None)"

definition setRegex :: "char option \<Rightarrow> string \<Rightarrow> (string \<times> nat) option" where
  \<comment> \<open>\<^verbatim>\<open>/([a-zA-Z_][a-zA-Z0-9_]*)\s*=/gi\<close> at a position\<close>
  "setRegex prev s =
     (case s of
        [] \<Rightarrow> None
      | c # _ \<Rightarrow>
          if isIdentStart c
          then tryDown
                 (\<lambda>r. case dropWhile isSpace r of
                         [] \<Rightarrow> None
                       | e # t \<Rightarrow> if e = CHR ''=''
                                  then Some (take (length s - length r) s, length s - length t)
                                  else None)
                 s (length (takeWhile isWordChar s))
          else None)"

definition colRegex :: "char option \<Rightarrow> string \<Rightarrow> (string \<times> nat) option" where
  \<comment> \<open>\<^verbatim>\<open>/([a-zA-Z_][a-zA-Z0-9_]*)\s*(?:=|<|>|LIKE|IN|IS|BETWEEN)/gi\<close> at a position: the
      identifier gives characters back until an operator follows\<close>
  "colRegex prev s =
     (case s of
        [] \<Rightarrow> None
      | c # _ \<Rightarrow>
          if isIdentStart c
          then tryDown
                 (\<lambda>r. let t = dropWhile isSpace r in
                       case find (\<lambda>w. ciPrefix w t) [''='', ''<'', ''>'', ''LIKE'', ''IN'', ''IS'', ''BETWEEN''] of
                         None \<Rightarrow> None
                       | Some w \<Rightarrow> Some (take (length s - length r) s, length s - length t + length w))
                 s (length (takeWhile isWordChar s))
          else None)"

definition extractColumnNames :: "string \<Rightarrow> string list" where
  "extractColumnNames sql =
     (let cleaned = removeComments sql;
          columns = (case firstMatch selectRegex cleaned of
                       None \<Rightarrow> []
                     | Some sel \<Rightarrow>
                         if str_trim sel \<noteq> ''*''
                         then foldl setAdd []
                                (concat (map (\<lambda>part. case identAt (str_trim part) of
                                                        None \<Rightarrow> []
                                                      | Some (name, n) \<Rightarrow> [str_toLowerCase name])
                                          (str_split (CHR '','') sel)))
                         else []);
          columns = (case firstMatch insertRegex cleaned of
                       None \<Rightarrow> columns
                     | Some ins \<Rightarrow>
                         foldl setAdd columns
                           (map (\<lambda>c. str_toLowerCase (str_trim c)) (str_split (CHR '','') ins)));
          columns = (case firstMatch (clauseRegex ''SET'' [''WHERE'']) cleaned of
                       None \<Rightarrow> columns
                     | Some setClause \<Rightarrow>
                         foldl setAdd columns
                           (map str_toLowerCase (execAll setRegex 0 None setClause)));
          columns = (case firstMatch (clauseRegex ''WHERE'' [''ORDER'', ''GROUP'', ''LIMIT'']) cleaned of
                       None \<Rightarrow> columns
                     | Some whereClause \<Rightarrow>
                         foldl setAdd columns
                           (map str_toLowerCase (execAll colRegex 0 None whereClause)))
      in columns)"

section \<open>Risk analyzer\<close>

datatype RiskLevel = safe | moderate | high | critical

datatype Warning =
    AddsRecords             \<comment> \<open>This will add new records to the database.\<close>
  | InsertingRows nat       \<comment> \<open>Inserting n row(s).\<close>
  | InsertFromSelect        \<comment> \<open>INSERT from SELECT may affect many rows.\<close>
  | UpdateNoWhere           \<comment> \<open>NO WHERE CLAUSE - This will update ALL rows in the table!\<close>
  | ModifiesRecords         \<comment> \<open>This will modify existing records.\<close>
  | WhereMatchesAll         \<comment> \<open>WHERE clause matches ALL rows!\<close>
  | DeleteNoWhere           \<comment> \<open>NO WHERE CLAUSE - This will DELETE ALL rows in the table!\<close>
  | DeletesRecords          \<comment> \<open>This will permanently delete records.\<close>
  | DdlBlocked              \<comment> \<open>DDL operations are blocked for safety.\<close>
  | UnknownOperation        \<comment> \<open>Unknown operation type detected.\<close>

record SchemaColumn =
  column_name :: string
  data_type :: string
  is_nullable :: string

record SchemaTable =
  table_name :: string
  columns :: "SchemaColumn list"

record OperationAnalysis =
  operation_type :: OperationType
  risk_level :: RiskLevel
  affected_tables :: "string list"
  affected_columns :: "string list"
  estimated_rows :: string
  warnings :: "Warning list"
  requires_confirmation :: bool

definition tupleGap :: "char option \<Rightarrow> string \<Rightarrow> (unit \<times> nat) option" where
  \<comment> \<open>\<^verbatim>\<open>/\),\s*\(/g\<close> at a position\<close>
  "tupleGap prev s =
     (case s of
        a # b # r \<Rightarrow>
          if a = CHR '')'' \<and> b = CHR '',''
          then (case dropWhile isSpace r of
                  [] \<Rightarrow> None
                | p # t \<Rightarrow> if p = CHR ''('' then Some ((), length s - length t) else None)
          else None
      | _ \<Rightarrow> None)"

definition writeRisk :: "string \<Rightarrow> Warning \<Rightarrow> Warning \<Rightarrow> RiskLevel \<times> string \<times> Warning list" where
  \<comment> \<open>the shared shape of the UPDATE and DELETE cases\<close>
  "writeRisk upperSQL noWhere withWhere =
     (if \<not> str_includes upperSQL ''WHERE'' then (critical, ''all'', [noWhere])
      else if str_includes upperSQL ''WHERE 1=1'' \<or> str_includes upperSQL ''WHERE TRUE''
           then (critical, ''all'', [withWhere, WhereMatchesAll])
           else (high, ''multiple'', [withWhere]))"

definition analyzeOperation :: "string \<Rightarrow> SchemaTable list \<Rightarrow> OperationAnalysis" where
  "analyzeOperation sql schema =
     (let opType = detectOperationType sql;
          tables = extractTableNames sql;
          cols = extractColumnNames sql;
          upperSQL = str_toUpperCase sql;
          (riskLevel, estimatedRows, warns, requiresConfirmation) =
            (case opType of
               SELECT \<Rightarrow> (safe, ''multiple'', [], False)
             | INSERT \<Rightarrow>
                 if str_includes upperSQL ''VALUES''
                 then (let valuesCount = length (execAll tupleGap 0 None upperSQL) + 1 in
                       (moderate, if valuesCount = 1 then ''single'' else ''multiple'',
                        [AddsRecords, InsertingRows valuesCount], True))
                 else if str_includes upperSQL ''SELECT''
                 then (high, ''multiple'', [AddsRecords, InsertFromSelect], True)
                 else (moderate, ''unknown'', [AddsRecords], True)
             | UPDATE \<Rightarrow>
                 (case writeRisk upperSQL UpdateNoWhere ModifiesRecords of
                    (r, e, w) \<Rightarrow> (r, e, w, True))
             | DELETE \<Rightarrow>
                 (case writeRisk upperSQL DeleteNoWhere DeletesRecords of
                    (r, e, w) \<Rightarrow> (r, e, w, True))
             | DDL \<Rightarrow> (critical, ''unknown'', [DdlBlocked], True)
             | UNKNOWN \<Rightarrow> (high, ''unknown'', [UnknownOperation], True))
      in \<lparr> operation_type = opType,
           risk_level = riskLevel,
           affected_tables = tables,
           affected_columns = cols,
           estimated_rows = estimatedRows,
           warnings = warns,
           requires_confirmation = requiresConfirmation \<rparr>)"

section \<open>Access-control gate and limit enforcer\<close>

datatype Role = creator | user

definition roleName :: "Role \<Rightarrow> string" where
  "roleName r = (case r of creator \<Rightarrow> ''creator'' | user \<Rightarrow> ''user'')"

definition opName :: "OperationType \<Rightarrow> string" where
  "opName t = (case t of SELECT \<Rightarrow> ''SELECT'' | INSERT \<Rightarrow> ''INSERT'' | UPDATE \<Rightarrow> ''UPDATE''
                 | DELETE \<Rightarrow> ''DELETE'' | DDL \<Rightarrow> ''DDL'' | UNKNOWN \<Rightarrow> ''UNKNOWN'')"

definition ROLE_PERMISSIONS :: "Role \<Rightarrow> OperationType list" where
  \<comment> \<open>the argument type of \<^verbatim>\<open>validateSQL\<close> admits the two keys of the table only, so the
      fallback \<^verbatim>\<open>|| ['SELECT']\<close> of the lookup is never taken\<close>
  "ROLE_PERMISSIONS r = (case r of
       creator \<Rightarrow> [SELECT, INSERT, UPDATE, DELETE]
     | user \<Rightarrow> [SELECT, INSERT, UPDATE, DELETE])"

definition MAX_LIMIT :: nat where
  "MAX_LIMIT = 1000"

definition DEFAULT_LIMIT :: nat where
  "DEFAULT_LIMIT = 100"

definition BLOCKED_PATTERNS :: "string list" where
  "BLOCKED_PATTERNS = [''INTO OUTFILE'', ''INTO DUMPFILE'', ''LOAD_FILE'', ''EXECUTE'', ''EXEC'']"

definition hasBlockedPatterns :: "string \<Rightarrow> string option" where
  "hasBlockedPatterns sql =
     (let upper = str_toUpperCase sql in find (\<lambda>pattern. str_includes upper pattern) BLOCKED_PATTERNS)"

definition limitRegex :: "char option \<Rightarrow> string \<Rightarrow> (string \<times> nat) option" where
  \<comment> \<open>\<^verbatim>\<open>/\bLIMIT\s+(\d+)/i\<close> at a position: the digits and the length of the match\<close>
  "limitRegex prev s =
     (if wordBoundary prev s \<and> ciPrefix ''LIMIT'' s
      then afterSpaces
             (\<lambda>r. let ds = takeWhile isDigit r in
                   if ds = [] then None else Some (ds, length s - length r + length ds))
             (drop 5 s)
      else None)"

fun stripTrailingSemicolons :: "string \<Rightarrow> string" where
  \<comment> \<open>\<^verbatim>\<open>replace(/;*\s*$/, '')\<close>: the text is cut at the leftmost position from which only
      semicolons and then only white space follow\<close>
  "stripTrailingSemicolons [] = []"
| "stripTrailingSemicolons (c # cs) =
     (if dropWhile isSpace (dropWhile (\<lambda>x. x = CHR '';'') (c # cs)) = [] then []
      else c # stripTrailingSemicolons cs)"

definition enforceLimit :: "string \<Rightarrow> string" where
  "enforceLimit sql =
     (let cleaned = str_trim sql in
      case searchFirst limitRegex None sql of
        Some ds \<Rightarrow>
          if MAX_LIMIT < digitsToNat 0 ds
          then replaceFirst limitRegex (''LIMIT '' @ natToString MAX_LIMIT) None cleaned
          else cleaned
      | None \<Rightarrow>
          if detectOperationType sql = SELECT
          then stripTrailingSemicolons cleaned @ '' LIMIT '' @ natToString DEFAULT_LIMIT
          else cleaned)"

record ValidationResult =
  is_valid :: bool
  reason :: "string option"
  sanitized_sql :: "string option"
  operation_analysis :: "OperationAnalysis option"

definition reject :: "string \<Rightarrow> ValidationResult" where
  \<comment> \<open>\<^verbatim>\<open>{ is_valid: false, reason: msg }\<close>\<close>
  "reject msg = \<lparr> is_valid = False, reason = Some msg, sanitized_sql = None,
                  operation_analysis = None \<rparr>"

definition quoted :: "string \<Rightarrow> string" where
  "quoted s = [CHR 0x22] @ s @ [CHR 0x22]"

definition skipList :: "string list" where
  "skipList = [''count'', ''sum'', ''avg'', ''max'', ''min'', ''now'', ''current_timestamp'', ''id'']"

definition emptyReason :: string where
  "emptyReason = ''Query cannot be empty.''"

definition multipleReason :: string where
  "multipleReason = ''Multiple SQL statements are not allowed. Please submit one query at a time.''"

definition blockedReason :: "string \<Rightarrow> string" where
  "blockedReason blockedPattern =
     ''Blocked pattern detected: '' @ quoted blockedPattern @ ''. This operation is not permitted.''"

definition ddlReason :: string where
  "ddlReason = ''DDL operations (CREATE, DROP, ALTER, TRUNCATE) are not allowed. Only data operations are permitted.''"

definition roleReason :: "OperationType \<Rightarrow> Role \<Rightarrow> OperationType list \<Rightarrow> string" where
  "roleReason opType role allowedOps =
     ''Operation '' @ quoted (opName opType) @ '' is not allowed for role '' @ quoted (roleName role)
       @ ''. Allowed operations: '' @ str_join '', '' (map opName allowedOps) @ ''.''"

definition tableReason :: "string \<Rightarrow> string list \<Rightarrow> string" where
  "tableReason t schemaTableNames =
     ''Table '' @ quoted t @ '' does not exist. Available tables: ''
       @ str_join '', '' schemaTableNames @ ''.''"

definition accessReason :: "string \<Rightarrow> string" where
  "accessReason t =
     ''Access denied: Table '' @ quoted t @ '' is not accessible with your permissions.''"

definition columnReason :: "string \<Rightarrow> string list \<Rightarrow> string" where
  "columnReason c columnsInQueryTables =
     ''Column '' @ quoted c @ '' does not exist in the queried table(s). Available: ''
       @ str_join '', '' (take 5 columnsInQueryTables) @ ''...''"

definition validateSQL :: "string \<Rightarrow> SchemaTable list \<Rightarrow> Role \<Rightarrow> string list option \<Rightarrow> ValidationResult" where
  "validateSQL sql schema role allowedTables =
     (if sql = [] \<or> length (str_trim sql) = 0 then reject emptyReason
      else let cleaned = removeComments sql in
      if hasMultipleStatements cleaned then reject multipleReason
      else case hasBlockedPatterns cleaned of
        Some blockedPattern \<Rightarrow> reject (blockedReason blockedPattern)
      | None \<Rightarrow>
      let opType = detectOperationType cleaned in
      if opType = DDL then reject ddlReason
      else let allowedOps = ROLE_PERMISSIONS role in
      if opType \<notin> set allowedOps then reject (roleReason opType role allowedOps)
      else let referencedTables = extractTableNames cleaned;
               schemaTableNames = map (\<lambda>t. str_toLowerCase (table_name t)) schema in
      case find (\<lambda>t. t \<notin> set schemaTableNames) referencedTables of
        Some t \<Rightarrow> reject (tableReason t schemaTableNames)
      | None \<Rightarrow>
      case (if role = user
            then (case allowedTables of
                    None \<Rightarrow> None
                  | Some allowed \<Rightarrow>
                      (let allowedLower = map str_toLowerCase allowed in
                       find (\<lambda>t. t \<notin> set allowedLower) referencedTables))
            else None) of
        Some t \<Rightarrow> reject (accessReason t)
      | None \<Rightarrow>
      let referencedColumns = extractColumnNames cleaned;
          tablesInQuery = filter (\<lambda>t. str_toLowerCase (table_name t) \<in> set referencedTables) schema;
          columnsInQueryTables =
            concat (map (\<lambda>t. map (\<lambda>c. str_toLowerCase (column_name c)) (columns t)) tablesInQuery) in
      case find (\<lambda>c. c \<notin> set skipList \<and> 0 < length columnsInQueryTables
                      \<and> c \<notin> set columnsInQueryTables) referencedColumns of
        Some c \<Rightarrow> reject (columnReason c columnsInQueryTables)
      | None \<Rightarrow>
      let sanitizedSQL = enforceLimit cleaned;
          analysis = analyzeOperation cleaned schema in
      \<lparr> is_valid = True, reason = None, sanitized_sql = Some sanitizedSQL,
        operation_analysis = Some analysis \<rparr>)"

definition demoSchema :: "SchemaTable list" where
  \<comment> \<open>the schema the request handler supplies when the caller gives none\<close>
  "demoSchema =
     [\<lparr> table_name = ''demo_users'', columns =
          [\<lparr> column_name = ''id'', data_type = ''uuid'', is_nullable = ''NO'' \<rparr>,
           \<lparr> column_name = ''email'', data_type = ''varchar'', is_nullable = ''NO'' \<rparr>,
           \<lparr> column_name = ''name'', data_type = ''varchar'', is_nullable = ''YES'' \<rparr>,
           \<lparr> column_name = ''created_at'', data_type = ''timestamp'', is_nullable = ''NO'' \<rparr>] \<rparr>,
      \<lparr> table_name = ''demo_orders'', columns =
          [\<lparr> column_name = ''id'', data_type = ''uuid'', is_nullable = ''NO'' \<rparr>,
           \<lparr> column_name = ''user_id'', data_type = ''uuid'', is_nullable = ''NO'' \<rparr>,
           \<lparr> column_name = ''total_amount'', data_type = ''numeric'', is_nullable = ''NO'' \<rparr>,
           \<lparr> column_name = ''status'', data_type = ''varchar'', is_nullable = ''NO'' \<rparr>,
           \<lparr> column_name = ''created_at'', data_type = ''timestamp'', is_nullable = ''NO'' \<rparr>] \<rparr>,
      \<lparr> table_name = ''demo_products'', columns =
          [\<lparr> column_name = ''id'', data_type = ''uuid'', is_nullable = ''NO'' \<rparr>,
           \<lparr> column_name = ''name'', data_type = ''varchar'', is_nullable = ''NO'' \<rparr>,
           \<lparr> column_name = ''price'', data_type = ''numeric'', is_nullable = ''NO'' \<rparr>,
           \<lparr> column_name = ''category'', data_type = ''varchar'', is_nullable = ''YES'' \<rparr>,
           \<lparr> column_name = ''in_stock'', data_type = ''boolean'', is_nullable = ''NO'' \<rparr>] \<rparr>]"

section \<open>The splitter and the WHERE clause as the specification words them\<close>

text \<open>
  Two definitions that follow the words of the specification, not the code, to be
  compared with \<open>hasMultipleStatements\<close> and with the WHERE test of \<open>analyzeOperation\<close>.
\<close>

fun spec_emptyLiterals :: "string \<Rightarrow> string" where
  \<comment> \<open>one scan from the left: a literal runs from a single or double quote to the next quote
      of the same kind, and its contents are replaced by nothing\<close>
  "spec_emptyLiterals [] = []"
| "spec_emptyLiterals (c # cs) =
     (if (c = CHR 0x27 \<or> c = CHR 0x22) \<and> c \<in> set cs
      then c # c # spec_emptyLiterals (tl (dropWhile (\<lambda>x. x \<noteq> c) cs))
      else c # spec_emptyLiterals cs)"

definition spec_hasMultipleStatements :: "string \<Rightarrow> bool" where
  \<comment> \<open>the comment-stripped text, its literals emptied, splits on the semicolon into more
      than one fragment that is not blank\<close>
  "spec_hasMultipleStatements sql =
     (1 < length (filter (\<lambda>s. 0 < length (str_trim s))
                    (str_split (CHR '';'') (spec_emptyLiterals (removeComments sql)))))"

fun spec_wordSearch :: "string \<Rightarrow> char option \<Rightarrow> string \<Rightarrow> bool" where
  \<comment> \<open>the keyword stands somewhere in the text as a word of its own, in any case\<close>
  "spec_wordSearch kw prev [] = False"
| "spec_wordSearch kw prev (c # cs) =
     ((wordBoundary prev (c # cs) \<and> ciPrefix kw (c # cs)
        \<and> wordBoundary (Some (last kw)) (drop (length kw) (c # cs)))
      \<or> spec_wordSearch kw (Some c) cs)"

definition spec_hasWhereClause :: "string \<Rightarrow> bool" where
  \<comment> \<open>a WHERE clause: the keyword WHERE as a word, outside comments and quoted literals\<close>
  "spec_hasWhereClause sql =
     spec_wordSearch ''WHERE'' None (spec_emptyLiterals (removeComments sql))"

section \<open>Texts free of comments\<close>

text \<open>
  What the three comment patterns look for: a pair of adjacent characters (two dashes, or
  the closing \<^verbatim>\<open>*/\<close>), a block opened by \<^verbatim>\<open>/*\<close> and closed later, a hash sign. The relation
  \<open>cut\<close> holds between a text and an edited text in which stretches were replaced by
  non-empty fillers that hold no character of a comment marker.
\<close>

definition firstIs :: "char \<Rightarrow> string \<Rightarrow> bool" where
  "firstIs x t = (case t of [] \<Rightarrow> False | c # _ \<Rightarrow> c = x)"

fun hasPair :: "char \<Rightarrow> char \<Rightarrow> string \<Rightarrow> bool" where
  "hasPair a b (c # d # cs) = ((c = a \<and> d = b) \<or> hasPair a b (d # cs))"
| "hasPair a b cs = False"

fun hasBlock :: "string \<Rightarrow> bool" where
  "hasBlock (c # d # cs) =
     ((c = CHR ''/'' \<and> d = CHR ''*'' \<and> hasPair (CHR ''*'') (CHR ''/'') cs) \<or> hasBlock (d # cs))"
| "hasBlock cs = False"

definition marker :: "char \<Rightarrow> bool" where
  "marker c = (c = CHR ''-'' \<or> c = CHR ''/'' \<or> c = CHR ''*'' \<or> c = CHR ''#'')"

inductive cut :: "string \<Rightarrow> string \<Rightarrow> bool" where
  cut_Nil: "cut [] []"
| cut_keep: "cut t t' \<Longrightarrow> cut (c # t) (c # t')"
| cut_fill: "cut t t' \<Longrightarrow> w \<noteq> [] \<Longrightarrow> list_all (\<lambda>c. \<not> marker c) w \<Longrightarrow> cut (u @ t) (w @ t')"

section \<open>The comment stripper is idempotent\<close>

lemma firstIs_simps [simp]:
  "firstIs x [] = False" "firstIs x (c # t) = (c = x)"
  by (simp_all add: firstIs_def)

lemma firstIs_append: "firstIs x (u @ v) = (if u = [] then firstIs x v else firstIs x u)"
  by (cases u) simp_all

lemma hasPair_Cons: "hasPair a b (p # t) = ((p = a \<and> firstIs b t) \<or> hasPair a b t)"
  by (cases t) auto

lemma hasBlock_Cons:
  "hasBlock (p # t) =
     ((p = CHR ''/'' \<and> firstIs (CHR ''*'') t \<and> hasPair (CHR ''*'') (CHR ''/'') (tl t)) \<or> hasBlock t)"
  by (cases t) auto

lemma hasPair_suffix: "hasPair a b t \<Longrightarrow> hasPair a b (u @ t)"
  by (induction u) (simp_all add: hasPair_Cons)

lemma hasPair_prefix: "hasPair a b u \<Longrightarrow> hasPair a b (u @ v)"
  by (induction u) (auto simp: hasPair_Cons firstIs_append)

lemma hasBlock_suffix: "hasBlock t \<Longrightarrow> hasBlock (u @ t)"
  by (induction u) (simp_all add: hasBlock_Cons)

lemma hasBlock_prefix: "hasBlock u \<Longrightarrow> hasBlock (u @ v)"
proof (induction u)
  case Nil
  then show ?case by simp
next
  case (Cons p u)
  then show ?case
    by (cases u) (auto simp: hasBlock_Cons firstIs_append hasPair_prefix)
qed

lemma cut_refl: "cut t t"
  by (induction t) (auto intro: cut.intros)

lemma neutral_head: "w \<noteq> [] \<Longrightarrow> list_all (\<lambda>c. \<not> marker c) w \<Longrightarrow> marker x \<Longrightarrow> \<not> firstIs x (w @ t)"
  by (cases w) auto

lemma cut_firstIs: "cut t t' \<Longrightarrow> marker x \<Longrightarrow> firstIs x t' \<Longrightarrow> firstIs x t"
  by (induction rule: cut.induct) (auto simp: neutral_head)

lemma neutral_hasPair:
  "list_all (\<lambda>c. \<not> marker c) w \<Longrightarrow> marker a \<Longrightarrow> hasPair a b (w @ t) \<Longrightarrow> hasPair a b t"
  by (induction w) (auto simp: hasPair_Cons)

lemma cut_hasPair: "cut t t' \<Longrightarrow> marker a \<Longrightarrow> marker b \<Longrightarrow> hasPair a b t' \<Longrightarrow> hasPair a b t"
proof (induction rule: cut.induct)
  case cut_Nil
  then show ?case by simp
next
  case (cut_keep t t' c)
  then show ?case by (auto simp: hasPair_Cons dest: cut_firstIs)
next
  case (cut_fill t t' w u)
  then have "hasPair a b t'" by (auto dest: neutral_hasPair)
  with cut_fill show ?case by (simp add: hasPair_suffix)
qed

lemma cut_block_head:
  "cut t t' \<Longrightarrow> firstIs (CHR ''*'') t' \<Longrightarrow> hasPair (CHR ''*'') (CHR ''/'') (tl t')
     \<Longrightarrow> firstIs (CHR ''*'') t \<and> hasPair (CHR ''*'') (CHR ''/'') (tl t)"
proof (induction rule: cut.cases)
  case cut_Nil
  then show ?case by simp
next
  case (cut_keep t0 t0' c)
  then show ?case by (auto dest: cut_hasPair simp: marker_def)
next
  case (cut_fill t0 t0' w u)
  then show ?case using neutral_head [of w "CHR ''*''" t0'] by (simp add: marker_def)
qed

lemma neutral_hasBlock:
  "list_all (\<lambda>c. \<not> marker c) w \<Longrightarrow> hasBlock (w @ t) \<Longrightarrow> hasBlock t"
  by (induction w) (auto simp: hasBlock_Cons marker_def)

lemma cut_hasBlock: "cut t t' \<Longrightarrow> hasBlock t' \<Longrightarrow> hasBlock t"
proof (induction rule: cut.induct)
  case cut_Nil
  then show ?case by simp
next
  case (cut_keep t t' c)
  then show ?case by (auto simp: hasBlock_Cons dest: cut_block_head)
next
  case (cut_fill t t' w u)
  then have "hasBlock t'" by (auto dest: neutral_hasBlock)
  with cut_fill show ?case by (simp add: hasBlock_suffix)
qed

lemma cut_hash: "cut t t' \<Longrightarrow> CHR ''#'' \<in> set t' \<Longrightarrow> CHR ''#'' \<in> set t"
  by (induction rule: cut.induct) (auto simp: list_all_iff marker_def)

lemma findBlockEnd_suffix: "findBlockEnd s = Some r \<Longrightarrow> \<exists>u. s = u @ r"
proof (induction s rule: findBlockEnd.induct)
  case (1 a b cs)
  show ?case
  proof (cases "a = CHR ''*'' \<and> b = CHR ''/''")
    case True
    with 1 have "a # b # cs = [a, b] @ r" by simp
    then show ?thesis by blast
  next
    case False
    with 1 obtain u where "b # cs = u @ r" by auto
    then have "a # b # cs = (a # u) @ r" by simp
    then show ?thesis by blast
  qed
qed simp_all

lemma findBlockEnd_hasPair: "(findBlockEnd s \<noteq> None) = hasPair (CHR ''*'') (CHR ''/'') s"
  by (induction s rule: findBlockEnd.induct) auto

lemma cut_stripBlock: "cut t (stripBlockComments t)"
proof (induction t rule: stripBlockComments.induct)
  case (1 c d cs)
  show ?case
  proof (cases "c = CHR ''/'' \<and> d = CHR ''*''")
    case True
    show ?thesis
    proof (cases "findBlockEnd cs")
      case None
      with True 1 show ?thesis by (auto intro: cut.intros)
    next
      case (Some rest)
      then obtain u where u: "cs = u @ rest" using findBlockEnd_suffix by blast
      from True Some 1 have "cut rest (stripBlockComments rest)" by simp
      then have "cut ((c # d # u) @ rest) ('' '' @ stripBlockComments rest)"
        by (rule cut_fill) (simp_all add: marker_def)
      with True Some u show ?thesis by simp
    qed
  next
    case False
    with 1 show ?thesis by (auto intro: cut.intros)
  qed
qed (auto intro: cut.intros)

lemma cut_stripHash: "cut t (stripHashComments t)"
proof (induction t rule: stripHashComments.induct)
  case 1
  then show ?case by (simp add: cut_Nil)
next
  case (2 c cs)
  show ?case
  proof (cases "c = CHR ''#''")
    case True
    with 2 have "cut (dropWhile (\<lambda>x. \<not> isLineTerminator x) cs)
                     (stripHashComments (dropWhile (\<lambda>x. \<not> isLineTerminator x) cs))" by simp
    then have "cut ((c # takeWhile (\<lambda>x. \<not> isLineTerminator x) cs) @ dropWhile (\<lambda>x. \<not> isLineTerminator x) cs)
                   ('' '' @ stripHashComments (dropWhile (\<lambda>x. \<not> isLineTerminator x) cs))"
      by (rule cut_fill) (simp_all add: marker_def)
    with True show ?thesis by simp
  next
    case False
    with 2 show ?thesis by (auto intro: cut.intros)
  qed
qed

lemma cut_replaceFirst:
  "repl \<noteq> [] \<Longrightarrow> list_all (\<lambda>c. \<not> marker c) repl \<Longrightarrow> cut t (replaceFirst m repl prev t)"
proof (induction t arbitrary: prev)
  case Nil
  then show ?case by (simp add: cut_Nil)
next
  case (Cons c cs)
  show ?case
  proof (cases "m prev (c # cs)")
    case None
    with Cons show ?thesis by (auto intro: cut_keep)
  next
    case (Some a)
    obtain cap n where a: "a = (cap, n)" by (cases a)
    have "cut (take n (c # cs) @ drop n (c # cs)) (repl @ drop n (c # cs))"
      using cut_refl Cons.prems by (rule cut_fill)
    with Some a show ?thesis by (simp del: drop_Cons' take_Cons')
  qed
qed

lemma firstIs_stripDash:
  "firstIs x (stripDashComments t) \<Longrightarrow> x \<noteq> CHR '' '' \<Longrightarrow> firstIs x t"
  by (cases t rule: stripDashComments.cases) (auto split: if_splits)

lemma stripDash_noDash: "\<not> hasPair (CHR ''-'') (CHR ''-'') (stripDashComments t)"
proof (induction t rule: stripDashComments.induct)
  case (1 c d cs)
  then show ?case
    using firstIs_stripDash [of "CHR ''-''" "d # cs"] by (auto simp: hasPair_Cons)
qed (auto simp: hasPair_Cons)

lemma stripBlock_noBlock: "\<not> hasBlock (stripBlockComments t)"
proof (induction t rule: stripBlockComments.induct)
  case (1 c d cs)
  show ?case
  proof (cases "c = CHR ''/'' \<and> d = CHR ''*''")
    case True
    show ?thesis
    proof (cases "findBlockEnd cs")
      case None
      then have "\<not> hasPair (CHR ''*'') (CHR ''/'') cs" using findBlockEnd_hasPair [of cs] by simp
      moreover have "cut (d # cs) (stripBlockComments (d # cs))" by (rule cut_stripBlock)
      ultimately have "\<not> (firstIs (CHR ''*'') (stripBlockComments (d # cs))
                          \<and> hasPair (CHR ''*'') (CHR ''/'') (tl (stripBlockComments (d # cs))))"
        by (auto dest: cut_block_head)
      with True None 1 show ?thesis by (auto simp: hasBlock_Cons)
    next
      case (Some rest)
      with True 1 show ?thesis by (simp add: hasBlock_Cons)
    qed
  next
    case False
    have "cut (d # cs) (stripBlockComments (d # cs))" by (rule cut_stripBlock)
    then have "firstIs (CHR ''*'') (stripBlockComments (d # cs)) \<Longrightarrow> d = CHR ''*''"
      by (auto dest: cut_firstIs simp: marker_def)
    moreover have "c = CHR ''/'' \<Longrightarrow> d \<noteq> CHR ''*''" using False by simp
    ultimately show ?thesis using False 1 by (auto simp: hasBlock_Cons)
  qed
qed simp_all

lemma stripHash_noHash: "CHR ''#'' \<notin> set (stripHashComments t)"
  by (induction t rule: stripHashComments.induct) auto

lemma stripDash_id: "\<not> hasPair (CHR ''-'') (CHR ''-'') t \<Longrightarrow> stripDashComments t = t"
  by (induction t rule: stripDashComments.induct) auto

lemma stripBlock_id: "\<not> hasBlock t \<Longrightarrow> stripBlockComments t = t"
  by (induction t rule: stripBlockComments.induct) (auto simp: findBlockEnd_hasPair [symmetric])

lemma stripHash_id: "CHR ''#'' \<notin> set t \<Longrightarrow> stripHashComments t = t"
  by (induction t rule: stripHashComments.induct) auto

lemma trim_decomp: "\<exists>u v. t = u @ str_trim t @ v"
proof -
  let ?x = "dropWhile isSpace t"
  have "?x = rev (takeWhile isSpace (rev ?x) @ dropWhile isSpace (rev ?x))"
    by (simp only: takeWhile_dropWhile_id rev_rev_ident)
  then have "?x = str_trim t @ rev (takeWhile isSpace (rev ?x))"
    by (simp only: rev_append str_trim_def)
  then have "t = takeWhile isSpace t @ str_trim t @ rev (takeWhile isSpace (rev ?x))"
    by (metis takeWhile_dropWhile_id)
  then show ?thesis by blast
qed

lemma trim_set: "set (str_trim t) \<subseteq> set t"
  using trim_decomp [of t] by (metis Un_upper1 Un_upper2 set_append subset_trans order_refl)

lemma trim_noPair: "\<not> hasPair a b t \<Longrightarrow> \<not> hasPair a b (str_trim t)"
  using trim_decomp [of t] by (metis hasPair_prefix hasPair_suffix)

lemma trim_noBlock: "\<not> hasBlock t \<Longrightarrow> \<not> hasBlock (str_trim t)"
  using trim_decomp [of t] by (metis hasBlock_prefix hasBlock_suffix)

lemma dropWhile_rev_head:
  "dropWhile P (rev (dropWhile P (rev (dropWhile P t)))) = rev (dropWhile P (rev (dropWhile P t)))"
proof (cases "dropWhile P t")
  case Nil
  then show ?thesis by (simp only: rev.simps dropWhile.simps)
next
  case (Cons x xs)
  then have nx: "\<not> P x" by (metis dropWhile_eq_Cons_conv)
  have "rev (dropWhile P (rev (x # xs))) \<noteq> []"
    using nx by (simp add: dropWhile_append)
  moreover have "hd (rev (dropWhile P (rev (x # xs)))) = x"
    using nx by (induction xs rule: rev_induct) (auto simp: dropWhile_append)
  ultimately show ?thesis using Cons nx
    by (metis dropWhile.simps(2) list.collapse)
qed

lemma trim_idem: "str_trim (str_trim t) = str_trim t"
  by (simp add: str_trim_def dropWhile_rev_head)

lemma removeComments_clean:
  "\<not> hasPair (CHR ''-'') (CHR ''-'') (removeComments s)"
  "\<not> hasBlock (removeComments s)"
  "CHR ''#'' \<notin> set (removeComments s)"
proof -
  let ?d = "stripDashComments s"
  let ?b = "stripBlockComments ?d"
  let ?h = "stripHashComments ?b"
  have "\<not> hasPair (CHR ''-'') (CHR ''-'') ?b"
    using cut_hasPair [OF cut_stripBlock, of "CHR ''-''" "CHR ''-''" ?d] stripDash_noDash [of s]
    by (auto simp: marker_def)
  then have "\<not> hasPair (CHR ''-'') (CHR ''-'') ?h"
    using cut_hasPair [OF cut_stripHash, of "CHR ''-''" "CHR ''-''" ?b] by (auto simp: marker_def)
  then show "\<not> hasPair (CHR ''-'') (CHR ''-'') (removeComments s)"
    by (simp add: removeComments_def trim_noPair)
  have "\<not> hasBlock ?h"
    using cut_hasBlock [OF cut_stripHash, of ?b] stripBlock_noBlock [of ?d] by auto
  then show "\<not> hasBlock (removeComments s)"
    by (simp add: removeComments_def trim_noBlock)
  show "CHR ''#'' \<notin> set (removeComments s)"
    using trim_set [of ?h] stripHash_noHash [of ?b] by (auto simp: removeComments_def)
qed

lemma removeComments_idem: "removeComments (removeComments s) = removeComments s"
proof -
  let ?r = "removeComments s"
  have "stripDashComments ?r = ?r" by (simp add: stripDash_id removeComments_clean)
  moreover have "stripBlockComments ?r = ?r" by (simp add: stripBlock_id removeComments_clean)
  moreover have "stripHashComments ?r = ?r" by (simp add: stripHash_id removeComments_clean)
  moreover have "str_trim ?r = ?r" by (simp add: removeComments_def trim_idem)
  ultimately show ?thesis by (simp add: removeComments_def [of ?r])
qed

section \<open>The gate, step by step\<close>

lemma detect_clean: "detectOperationType (removeComments s) = detectOperationType s"
  by (simp add: detectOperationType_def removeComments_idem)

lemma multiple_clean: "hasMultipleStatements (removeComments s) = hasMultipleStatements s"
  by (simp add: hasMultipleStatements_def removeComments_idem)

lemma tables_clean: "extractTableNames (removeComments s) = extractTableNames s"
  by (simp add: extractTableNames_def removeComments_idem)

lemma columns_clean: "extractColumnNames (removeComments s) = extractColumnNames s"
  by (simp add: extractColumnNames_def removeComments_idem)

lemma trim_clean: "str_trim (removeComments s) = removeComments s"
  by (simp add: removeComments_def trim_idem)

lemma str_trim_Nil [simp]: "str_trim [] = []"
  by (simp add: str_trim_def)

lemma hasPair_mem: "hasPair a b t \<Longrightarrow> a \<in> set t"
  by (induction a b t rule: hasPair.induct) auto

lemma hasBlock_mem: "hasBlock t \<Longrightarrow> CHR ''/'' \<in> set t"
  by (induction t rule: hasBlock.induct) auto

lemma trim_empty_iff: "(str_trim t = []) = (\<forall>c\<in>set t. isSpace c)"
proof
  assume e: "str_trim t = []"
  show "\<forall>c\<in>set t. isSpace c"
  proof (cases "dropWhile isSpace t")
    case Nil
    then show ?thesis by simp
  next
    case (Cons x xs)
    then have "\<not> isSpace x" by (metis dropWhile_eq_Cons_conv)
    moreover from e Cons have "\<forall>c\<in>set (x # xs). isSpace c" by (simp add: str_trim_def)
    ultimately show ?thesis by simp
  qed
next
  assume "\<forall>c\<in>set t. isSpace c"
  then have "dropWhile isSpace t = []" by simp
  then show "str_trim t = []" by (simp only: str_trim_def rev.simps dropWhile.simps)
qed

lemma blank_removeComments:
  assumes "str_trim t = []"
  shows "removeComments t = []"
proof -
  from assms have sp: "\<forall>c\<in>set t. isSpace c" by (simp add: trim_empty_iff)
  have "\<not> isSpace (CHR ''-'')" "\<not> isSpace (CHR ''/'')" "\<not> isSpace (CHR ''#'')"
    by (simp_all add: isSpace_Char)
  with sp have "CHR ''-'' \<notin> set t" "CHR ''/'' \<notin> set t" "CHR ''#'' \<notin> set t" by auto
  then have "stripDashComments t = t" "stripBlockComments t = t" "stripHashComments t = t"
    by (auto intro: stripDash_id stripBlock_id stripHash_id dest: hasPair_mem hasBlock_mem)
  with assms show ?thesis by (simp add: removeComments_def)
qed

lemma blank_not_multiple: "str_trim t = [] \<Longrightarrow> \<not> hasMultipleStatements t"
  by (simp add: hasMultipleStatements_def blank_removeComments str_trim_def)

lemma blank_not_ddl: "str_trim t = [] \<Longrightarrow> detectOperationType t = UNKNOWN"
  by (simp add: detectOperationType_def blank_removeComments str_trim_def str_toUpperCase_def
      DDL_KEYWORDS_def ddlLeading_def str_startsWith_def)

lemma detect_ddl_iff:
  "(detectOperationType sql = DDL) =
     list_ex (\<lambda>keyword. ddlLeading keyword (str_trim (str_toUpperCase (removeComments sql)))
                \<or> ddlObjectSearch keyword None (str_trim (str_toUpperCase (removeComments sql))))
       DDL_KEYWORDS"
  by (simp add: detectOperationType_def Let_def)

lemma validateSQL_steps:
  "validateSQL sql schema role allowedTables =
     (if str_trim sql = [] then reject emptyReason
      else if hasMultipleStatements sql then reject multipleReason
      else case hasBlockedPatterns (removeComments sql) of
        Some blockedPattern \<Rightarrow> reject (blockedReason blockedPattern)
      | None \<Rightarrow>
      if detectOperationType sql = DDL then reject ddlReason
      else if detectOperationType sql \<notin> set (ROLE_PERMISSIONS role)
      then reject (roleReason (detectOperationType sql) role (ROLE_PERMISSIONS role))
      else case find (\<lambda>t. t \<notin> set (map (\<lambda>t. str_toLowerCase (table_name t)) schema))
                  (extractTableNames sql) of
        Some t \<Rightarrow> reject (tableReason t (map (\<lambda>t. str_toLowerCase (table_name t)) schema))
      | None \<Rightarrow>
      case (if role = user
            then (case allowedTables of
                    None \<Rightarrow> None
                  | Some allowed \<Rightarrow>
                      find (\<lambda>t. t \<notin> set (map str_toLowerCase allowed)) (extractTableNames sql))
            else None) of
        Some t \<Rightarrow> reject (accessReason t)
      | None \<Rightarrow>
      let columnsInQueryTables =
            concat (map (\<lambda>t. map (\<lambda>c. str_toLowerCase (column_name c)) (columns t))
                      (filter (\<lambda>t. str_toLowerCase (table_name t) \<in> set (extractTableNames sql)) schema)) in
      case find (\<lambda>c. c \<notin> set skipList \<and> 0 < length columnsInQueryTables
                      \<and> c \<notin> set columnsInQueryTables) (extractColumnNames sql) of
        Some c \<Rightarrow> reject (columnReason c columnsInQueryTables)
      | None \<Rightarrow>
      \<lparr> is_valid = True, reason = None,
        sanitized_sql = Some (enforceLimit (removeComments sql)),
        operation_analysis = Some (analyzeOperation (removeComments sql) schema) \<rparr>)"
proof -
  have e: "(sql = [] \<or> length (str_trim sql) = 0) = (str_trim sql = [])" by auto
  show ?thesis
    unfolding validateSQL_def e Let_def detect_clean multiple_clean tables_clean columns_clean
    by (rule refl)
qed

lemma validateSQL_multiple:
  "hasMultipleStatements sql \<Longrightarrow> validateSQL sql schema role allowedTables = reject multipleReason"
  using blank_not_multiple [of sql] by (auto simp: validateSQL_steps)

lemma validateSQL_ddl_invalid:
  "detectOperationType sql = DDL \<Longrightarrow> \<not> is_valid (validateSQL sql schema role allowedTables)"
  by (simp add: validateSQL_steps reject_def split: option.split)

lemma validateSQL_ddl_reason:
  "detectOperationType sql = DDL \<Longrightarrow> \<not> hasMultipleStatements sql
     \<Longrightarrow> hasBlockedPatterns (removeComments sql) = None
     \<Longrightarrow> validateSQL sql schema role allowedTables = reject ddlReason"
  using blank_not_ddl [of sql] by (auto simp: validateSQL_steps)

lemma validateSQL_ddl_blocked:
  "detectOperationType sql = DDL \<Longrightarrow> \<not> hasMultipleStatements sql
     \<Longrightarrow> hasBlockedPatterns (removeComments sql) = Some blockedPattern
     \<Longrightarrow> validateSQL sql schema role allowedTables = reject (blockedReason blockedPattern)"
  using blank_not_ddl [of sql] by (auto simp: validateSQL_steps)

lemma find_never [simp]: "find (\<lambda>c. False) xs = None"
  by (induction xs) simp_all

lemma validateSQL_no_tables:
  "extractTableNames sql = [] \<Longrightarrow> str_trim sql \<noteq> [] \<Longrightarrow> \<not> hasMultipleStatements sql
     \<Longrightarrow> hasBlockedPatterns (removeComments sql) = None
     \<Longrightarrow> detectOperationType sql \<in> set (ROLE_PERMISSIONS role)
     \<Longrightarrow> validateSQL sql schema role allowedTables =
           \<lparr> is_valid = True, reason = None,
             sanitized_sql = Some (enforceLimit (removeComments sql)),
             operation_analysis = Some (analyzeOperation (removeComments sql) schema) \<rparr>"
  by (cases role) (auto simp: validateSQL_steps ROLE_PERMISSIONS_def find_None_iff split: option.split)

lemma validateSQL_accepted:
  "is_valid (validateSQL sql schema role allowedTables)
     \<Longrightarrow> validateSQL sql schema role allowedTables =
           \<lparr> is_valid = True, reason = None,
             sanitized_sql = Some (enforceLimit (removeComments sql)),
             operation_analysis = Some (analyzeOperation (removeComments sql) schema) \<rparr>"
  by (auto simp: validateSQL_steps reject_def Let_def split: option.splits if_splits)

lemma validateSQL_creator_allowlist:
  "validateSQL sql schema creator allowedTables = validateSQL sql schema creator None"
  by (simp add: validateSQL_steps)

lemma find_absent: "t \<in> set ts \<Longrightarrow> \<not> P t \<Longrightarrow> \<exists>t'. find (\<lambda>x. \<not> P x) ts = Some t' \<and> t' \<in> set ts \<and> \<not> P t'"
  by (induction ts) auto

lemma validateSQL_user_allowlist:
  assumes "t \<in> set (extractTableNames sql)" "t \<notin> set (map str_toLowerCase allowed)"
  shows "\<not> is_valid (validateSQL sql schema user (Some allowed))"
proof -
  from find_absent [of t "extractTableNames sql" "\<lambda>x. x \<in> set (map str_toLowerCase allowed)"] assms
  obtain t' where "find (\<lambda>x. x \<notin> set (map str_toLowerCase allowed)) (extractTableNames sql) = Some t'"
    by auto
  then show ?thesis
    by (simp add: validateSQL_steps reject_def Let_def split: option.split)
qed

lemma validateSQL_user_allowlist_reason:
  assumes "t \<in> set (extractTableNames sql)" "t \<notin> set (map str_toLowerCase allowed)"
    and "str_trim sql \<noteq> []" "\<not> hasMultipleStatements sql"
    and "hasBlockedPatterns (removeComments sql) = None"
    and "detectOperationType sql \<in> set (ROLE_PERMISSIONS user)"
    and "set (extractTableNames sql) \<subseteq> set (map (\<lambda>t. str_toLowerCase (table_name t)) schema)"
  shows "\<exists>t'. t' \<in> set (extractTableNames sql) \<and> t' \<notin> set (map str_toLowerCase allowed)
            \<and> validateSQL sql schema user (Some allowed) = reject (accessReason t')"
proof -
  from find_absent [of t "extractTableNames sql" "\<lambda>x. x \<in> set (map str_toLowerCase allowed)"] assms
  obtain t' where t': "find (\<lambda>x. x \<notin> set (map str_toLowerCase allowed)) (extractTableNames sql) = Some t'"
    "t' \<in> set (extractTableNames sql)" "t' \<notin> set (map str_toLowerCase allowed)"
    by auto
  have nf: "find (\<lambda>t. t \<notin> set (map (\<lambda>t. str_toLowerCase (table_name t)) schema)) (extractTableNames sql) = None"
    using assms(7) by (auto simp: find_None_iff)
  have "validateSQL sql schema user (Some allowed) = reject (accessReason t')"
    using assms(3-6) t'(1) nf
    by (auto simp: validateSQL_steps ROLE_PERMISSIONS_def)
  with t' show ?thesis by blast
qed

lemma analyze_write_no_where:
  "detectOperationType sql = UPDATE \<or> detectOperationType sql = DELETE
     \<Longrightarrow> \<not> str_includes (str_toUpperCase sql) ''WHERE''
     \<Longrightarrow> risk_level (analyzeOperation sql schema) = critical
         \<and> estimated_rows (analyzeOperation sql schema) = ''all''
         \<and> requires_confirmation (analyzeOperation sql schema)"
  by (auto simp: analyzeOperation_def writeRisk_def Let_def)

section \<open>The limit enforcer\<close>

lemma natToString_MAX_LIMIT: "natToString 1000 = ''1000''"
  by code_simp

lemma natToString_DEFAULT_LIMIT: "natToString 100 = ''100''"
  by code_simp

lemma enforceLimit_unfold:
  "enforceLimit sql =
     (case searchFirst limitRegex None sql of
        Some ds \<Rightarrow>
          if 1000 < digitsToNat 0 ds
          then replaceFirst limitRegex ''LIMIT 1000'' None (str_trim sql)
          else str_trim sql
      | None \<Rightarrow>
          if detectOperationType sql = SELECT
          then stripTrailingSemicolons (str_trim sql) @ '' LIMIT 100''
          else str_trim sql)"
  by (simp add: enforceLimit_def natToString_MAX_LIMIT natToString_DEFAULT_LIMIT Let_def
      MAX_LIMIT_def DEFAULT_LIMIT_def split: option.split)

lemma stripTrailing_prefix: "\<exists>v. t = stripTrailingSemicolons t @ v"
proof (induction t)
  case Nil
  then show ?case by simp
next
  case (Cons c cs)
  then obtain v where v: "cs = stripTrailingSemicolons cs @ v" by blast
  show ?case
  proof (cases "dropWhile isSpace (dropWhile (\<lambda>x. x = CHR '';'') (c # cs)) = []")
    case True
    then have "stripTrailingSemicolons (c # cs) = []" by (simp only: stripTrailingSemicolons.simps simp_thms if_True)
    then show ?thesis by simp
  next
    case False
    then have "stripTrailingSemicolons (c # cs) = c # stripTrailingSemicolons cs"
      by (simp only: stripTrailingSemicolons.simps simp_thms if_False)
    with v have "c # cs = stripTrailingSemicolons (c # cs) @ v" by simp
    then show ?thesis by blast
  qed
qed

lemma neutral_tail_hasPair:
  "list_all (\<lambda>c. \<not> marker c) w \<Longrightarrow> marker a \<Longrightarrow> marker b \<Longrightarrow> hasPair a b (u @ w) \<Longrightarrow> hasPair a b u"
proof (induction u)
  case Nil
  then show ?case using neutral_hasPair [of w a b "[]"] by simp
next
  case (Cons p u)
  have "\<not> firstIs b w" using Cons.prems(1,3) by (cases w) auto
  with Cons show ?case by (auto simp: hasPair_Cons firstIs_append split: if_splits)
qed

lemma neutral_tail_hasBlock:
  "list_all (\<lambda>c. \<not> marker c) w \<Longrightarrow> hasBlock (u @ w) \<Longrightarrow> hasBlock u"
proof (induction u)
  case Nil
  then show ?case using neutral_hasBlock [of w "[]"] by simp
next
  case (Cons p u)
  have nf: "\<not> firstIs (CHR ''*'') w" using Cons.prems(1) by (cases w) (auto simp: marker_def)
  show ?case
  proof (cases u)
    case Nil
    with Cons nf show ?thesis by (auto simp: hasBlock_Cons)
  next
    case (Cons q u')
    have "hasPair (CHR ''*'') (CHR ''/'') (u' @ w) \<Longrightarrow> hasPair (CHR ''*'') (CHR ''/'') u'"
      using Cons.prems(1) neutral_tail_hasPair [of w "CHR ''*''" "CHR ''/''" u']
      by (simp add: marker_def)
    with Cons Cons.IH Cons.prems show ?thesis by (auto simp: hasBlock_Cons)
  qed
qed

lemma str_includes_pair: "str_includes t [a, b] = hasPair a b t"
  by (induction a b t rule: hasPair.induct) (auto simp: str_startsWith_def)

lemma enforceLimit_clean:
  assumes d: "\<not> hasPair (CHR ''-'') (CHR ''-'') c" and b: "\<not> hasBlock c"
    and h: "CHR ''#'' \<notin> set c"
  shows "\<not> hasPair (CHR ''-'') (CHR ''-'') (enforceLimit c)
         \<and> \<not> hasBlock (enforceLimit c) \<and> CHR ''#'' \<notin> set (enforceLimit c)"
proof -
  let ?t = "str_trim c"
  let ?r = "replaceFirst limitRegex ''LIMIT 1000'' None ?t"
  let ?a = "stripTrailingSemicolons ?t @ '' LIMIT 100''"
  have t: "\<not> hasPair (CHR ''-'') (CHR ''-'') ?t" "\<not> hasBlock ?t" "CHR ''#'' \<notin> set ?t"
    using d b h trim_set [of c] by (auto simp: trim_noPair trim_noBlock)
  have cr: "cut ?t ?r" by (rule cut_replaceFirst) (simp_all add: marker_def)
  have r: "\<not> hasPair (CHR ''-'') (CHR ''-'') ?r \<and> \<not> hasBlock ?r \<and> CHR ''#'' \<notin> set ?r"
    using t cut_hasPair [OF cr, of "CHR ''-''" "CHR ''-''"] cut_hasBlock [OF cr] cut_hash [OF cr]
    by (auto simp: marker_def)
  obtain v where v: "?t = stripTrailingSemicolons ?t @ v" using stripTrailing_prefix by blast
  have s: "\<not> hasPair (CHR ''-'') (CHR ''-'') (stripTrailingSemicolons ?t)"
    "\<not> hasBlock (stripTrailingSemicolons ?t)" "CHR ''#'' \<notin> set (stripTrailingSemicolons ?t)"
    using t v by (metis hasPair_prefix, metis hasBlock_prefix, metis Un_iff set_append)
  have n: "list_all (\<lambda>c. \<not> marker c) '' LIMIT 100''" by (simp add: marker_def)
  have a: "\<not> hasPair (CHR ''-'') (CHR ''-'') ?a \<and> \<not> hasBlock ?a \<and> CHR ''#'' \<notin> set ?a"
    using s neutral_tail_hasPair [OF n, of "CHR ''-''" "CHR ''-''" "stripTrailingSemicolons ?t"]
      neutral_tail_hasBlock [OF n, of "stripTrailingSemicolons ?t"]
    by (auto simp: marker_def)
  have "enforceLimit c = ?t \<or> enforceLimit c = ?r \<or> enforceLimit c = ?a"
    by (simp add: enforceLimit_unfold split: option.split)
  with t r a show ?thesis by metis
qed

lemma sanitized_clean:
  "\<not> hasPair (CHR ''-'') (CHR ''-'') (enforceLimit (removeComments sql))
   \<and> \<not> hasBlock (enforceLimit (removeComments sql))
   \<and> CHR ''#'' \<notin> set (enforceLimit (removeComments sql))"
  by (rule enforceLimit_clean) (simp_all add: removeComments_clean)

lemma tryDown_Some:
  "tryDown cont r k = Some x \<Longrightarrow> \<exists>j. 0 < j \<and> j \<le> k \<and> cont (drop j r) = Some x"
proof (induction k)
  case 0
  then show ?case by simp
next
  case (Suc k)
  show ?case
  proof (cases "cont (drop (Suc k) r)")
    case None
    with Suc obtain j where "0 < j" "j \<le> k" "cont (drop j r) = Some x" by auto
    then show ?thesis by (metis le_Suc_eq)
  next
    case (Some y)
    with Suc.prems have "cont (drop (Suc k) r) = Some x" by simp
    then show ?thesis by blast
  qed
qed

lemma take_spaces: "j \<le> length (takeWhile P r) \<Longrightarrow> list_all P (take j r)"
proof -
  assume j: "j \<le> length (takeWhile P r)"
  have "take j r = take j (takeWhile P r @ dropWhile P r)" by simp
  also have "\<dots> = take j (takeWhile P r)" using j by (simp del: takeWhile_dropWhile_id)
  finally have "set (take j r) \<subseteq> set (takeWhile P r)" by (simp add: set_take_subset)
  then show ?thesis by (auto simp: list_all_iff dest: set_takeWhileD)
qed

lemma canon_LIMIT: "map canon ''LIMIT'' = ''LIMIT''"
  by code_simp

lemma ciPrefix_length: "ciPrefix p s \<Longrightarrow> length p \<le> length s"
proof -
  assume "ciPrefix p s"
  then have "length (map canon (take (length p) s)) = length (map canon p)"
    unfolding ciPrefix_def by (rule arg_cong)
  then show ?thesis by simp
qed

lemma limitRegex_shape:
  assumes "limitRegex prev s = Some (ds, n)"
  shows "\<exists>kw ws. s = kw @ ws @ ds @ drop n s \<and> n = length kw + length ws + length ds
           \<and> map canon kw = ''LIMIT'' \<and> ws \<noteq> [] \<and> list_all isSpace ws
           \<and> ds \<noteq> [] \<and> list_all isDigit ds"
proof -
  let ?r = "drop 5 s"
  let ?cont = "\<lambda>r. let ds = takeWhile isDigit r in
                   if ds = [] then None else Some (ds, length s - length r + length ds)"
  from assms have cp: "ciPrefix ''LIMIT'' s" and as: "afterSpaces ?cont ?r = Some (ds, n)"
    by (auto simp: limitRegex_def split: if_splits)
  have len: "length ''LIMIT'' = 5" by simp
  from cp have kw: "map canon (take 5 s) = ''LIMIT''"
    unfolding ciPrefix_def canon_LIMIT len .
  have l5: "5 \<le> length s" using ciPrefix_length [OF cp] unfolding len .
  from as have "tryDown ?cont ?r (length (takeWhile isSpace ?r)) = Some (ds, n)"
    by (simp only: afterSpaces_def)
  from tryDown_Some [OF this] obtain j where j: "0 < j" "j \<le> length (takeWhile isSpace ?r)"
      "?cont (drop j ?r) = Some (ds, n)"
    by blast
  have jl: "j \<le> length ?r" using j(2) length_takeWhile_le [of isSpace ?r] by linarith
  from j(3) have ds: "ds = takeWhile isDigit (drop j ?r)" "ds \<noteq> []"
      and n: "n = length s - length (drop j ?r) + length ds"
    by (auto simp: Let_def split: if_splits)
  have n': "n = 5 + j + length ds" using n jl l5 by simp
  have ws: "list_all isSpace (take j ?r)" using j(2) by (rule take_spaces)
  have wne: "take j ?r \<noteq> []" using j(1) jl by (cases ?r; simp)
  have dl: "length ds \<le> length (drop j ?r)" using ds(1) length_takeWhile_le by metis
  have "drop n s = drop (length ds) (drop j ?r)" using n' by (simp add: add.commute)
  also have "\<dots> = dropWhile isDigit (drop j ?r)" using ds(1) by (metis dropWhile_eq_drop)
  finally have dn: "drop n s = dropWhile isDigit (drop j ?r)" .
  have e1: "s = take 5 s @ take j ?r @ ds @ drop n s"
    unfolding dn ds(1) by (simp del: drop_drop)
  have e2: "n = length (take 5 s) + length (take j ?r) + length ds"
    using n' l5 jl by simp
  have e3: "list_all isDigit ds" using ds(1) by (auto simp: list_all_iff dest: set_takeWhileD)
  have "s = take 5 s @ take j ?r @ ds @ drop n s
          \<and> n = length (take 5 s) + length (take j ?r) + length ds
          \<and> map canon (take 5 s) = ''LIMIT'' \<and> take j ?r \<noteq> [] \<and> list_all isSpace (take j ?r)
          \<and> ds \<noteq> [] \<and> list_all isDigit ds"
    using e1 e2 e3 kw ws wne ds(2) by (intro conjI)
  then show ?thesis by (intro exI)
qed

lemma replaceFirst_limit_shape:
  "searchFirst limitRegex prev t = Some ds \<Longrightarrow>
     \<exists>pre kw ws post. t = pre @ kw @ ws @ ds @ post \<and> map canon kw = ''LIMIT''
        \<and> ws \<noteq> [] \<and> list_all isSpace ws \<and> ds \<noteq> [] \<and> list_all isDigit ds
        \<and> replaceFirst limitRegex repl prev t = pre @ repl @ post"
proof (induction t arbitrary: prev)
  case Nil
  then show ?case by simp
next
  case (Cons c cs)
  show ?case
  proof (cases "limitRegex prev (c # cs)")
    case None
    with Cons.prems have "searchFirst limitRegex (Some c) cs = Some ds" by simp
    from Cons.IH [OF this] obtain pre kw ws post where
      "cs = pre @ kw @ ws @ ds @ post" "map canon kw = ''LIMIT''" "ws \<noteq> []" "list_all isSpace ws"
      "ds \<noteq> []" "list_all isDigit ds"
      "replaceFirst limitRegex repl (Some c) cs = pre @ repl @ post"
      by (elim exE conjE) (rule that; assumption)
    with None have "c # cs = (c # pre) @ kw @ ws @ ds @ post \<and> map canon kw = ''LIMIT''
        \<and> ws \<noteq> [] \<and> list_all isSpace ws \<and> ds \<noteq> [] \<and> list_all isDigit ds
        \<and> replaceFirst limitRegex repl prev (c # cs) = (c # pre) @ repl @ post" by simp
    then show ?thesis by (intro exI)
  next
    case (Some a)
    obtain ds' n where a: "a = (ds', n)" by (cases a)
    with Some Cons.prems have d: "ds' = ds" by simp
    from Some a d have "limitRegex prev (c # cs) = Some (ds, n)" by simp
    from limitRegex_shape [OF this] obtain kw ws where
      "c # cs = kw @ ws @ ds @ drop n (c # cs)" "map canon kw = ''LIMIT''" "ws \<noteq> []"
      "list_all isSpace ws" "ds \<noteq> []" "list_all isDigit ds"
      by (elim exE conjE) (rule that; assumption)
    moreover have "replaceFirst limitRegex repl prev (c # cs) = [] @ repl @ drop n (c # cs)"
      using Some a by (simp del: drop_Cons')
    ultimately have "c # cs = [] @ kw @ ws @ ds @ drop n (c # cs) \<and> map canon kw = ''LIMIT''
        \<and> ws \<noteq> [] \<and> list_all isSpace ws \<and> ds \<noteq> [] \<and> list_all isDigit ds
        \<and> replaceFirst limitRegex repl prev (c # cs) = [] @ repl @ drop n (c # cs)"
      by (simp del: drop_Cons')
    then show ?thesis by (intro exI)
  qed
qed

lemma stripTrailing_shape:
  "\<exists>v. t = stripTrailingSemicolons t @ v
      \<and> dropWhile isSpace (dropWhile (\<lambda>x. x = CHR '';'') v) = []"
proof (induction t)
  case Nil
  then show ?case by simp
next
  case (Cons c cs)
  then obtain v where v: "cs = stripTrailingSemicolons cs @ v"
      "dropWhile isSpace (dropWhile (\<lambda>x. x = CHR '';'') v) = []" by blast
  show ?case
  proof (cases "dropWhile isSpace (dropWhile (\<lambda>x. x = CHR '';'') (c # cs)) = []")
    case True
    then have "stripTrailingSemicolons (c # cs) = []"
      by (simp only: stripTrailingSemicolons.simps simp_thms if_True)
    with True have "c # cs = stripTrailingSemicolons (c # cs) @ (c # cs)
        \<and> dropWhile isSpace (dropWhile (\<lambda>x. x = CHR '';'') (c # cs)) = []" by simp
    then show ?thesis by blast
  next
    case False
    then have "stripTrailingSemicolons (c # cs) = c # stripTrailingSemicolons cs"
      by (simp only: stripTrailingSemicolons.simps simp_thms if_False)
    with v have "c # cs = stripTrailingSemicolons (c # cs) @ v
        \<and> dropWhile isSpace (dropWhile (\<lambda>x. x = CHR '';'') v) = []" by simp
    then show ?thesis by blast
  qed
qed

lemma analyze_schema_free: "analyzeOperation sql schema = analyzeOperation sql []"
  by (simp add: analyzeOperation_def)

lemma select_permitted: "SELECT \<in> set (ROLE_PERMISSIONS role)"
  by (cases role) (simp_all add: ROLE_PERMISSIONS_def)

lemma sanitized_accepted:
  "is_valid (validateSQL sql schema role allowedTables)
     \<Longrightarrow> sanitized_sql (validateSQL sql schema role allowedTables)
           = Some (enforceLimit (removeComments sql))"
  using validateSQL_accepted [of sql schema role allowedTables] by simp

lemma validateSQL_no_tables_free:
  "extractTableNames sql = [] \<Longrightarrow>
     validateSQL sql schema role allowedTables = validateSQL sql [] role None"
  using analyze_schema_free [of "removeComments sql" schema]
  by (simp add: validateSQL_steps split: option.split)

lemma enforceLimit_clamps:
  "searchFirst limitRegex None (removeComments sql) = Some ds \<Longrightarrow> 1000 < digitsToNat 0 ds
     \<Longrightarrow> enforceLimit (removeComments sql)
           = replaceFirst limitRegex ''LIMIT 1000'' None (removeComments sql)"
  by (simp add: enforceLimit_unfold trim_clean)

lemma enforceLimit_keeps:
  "searchFirst limitRegex None (removeComments sql) = Some ds \<Longrightarrow> digitsToNat 0 ds \<le> 1000
     \<Longrightarrow> enforceLimit (removeComments sql) = removeComments sql"
  by (simp add: enforceLimit_unfold trim_clean)

lemma enforceLimit_appends:
  "searchFirst limitRegex None (removeComments sql) = None \<Longrightarrow> detectOperationType sql = SELECT
     \<Longrightarrow> enforceLimit (removeComments sql)
           = stripTrailingSemicolons (removeComments sql) @ '' LIMIT 100''"
  by (simp add: enforceLimit_unfold trim_clean detect_clean)

section \<open>Evaluations at concrete statements\<close>

lemma eval_drop_table:
  "detectOperationType ''DROP TABLE demo_users'' = DDL
   \<and> \<not> hasMultipleStatements ''DROP TABLE demo_users''
   \<and> hasBlockedPatterns (removeComments ''DROP TABLE demo_users'') = None"
  by code_simp

lemma eval_alter_table:
  "detectOperationType ''ALTER TABLE demo_users ADD age INT'' = DDL
   \<and> \<not> hasMultipleStatements ''ALTER TABLE demo_users ADD age INT''
   \<and> hasBlockedPatterns (removeComments ''ALTER TABLE demo_users ADD age INT'') = None"
  by code_simp

lemma eval_two_drops:
  "detectOperationType ''DROP TABLE a; DROP TABLE b'' = DDL
   \<and> hasMultipleStatements ''DROP TABLE a; DROP TABLE b''"
  by code_simp

lemma eval_drop_executions:
  "detectOperationType ''DROP TABLE executions'' = DDL
   \<and> \<not> hasMultipleStatements ''DROP TABLE executions''
   \<and> hasBlockedPatterns (removeComments ''DROP TABLE executions'') = Some ''EXEC''"
  by code_simp

lemma eval_reasons:
  "multipleReason \<noteq> ddlReason \<and> \<not> str_includes multipleReason ''DDL''"
  by code_simp

lemma eval_delete_5000:
  "validateSQL ''DELETE FROM demo_orders LIMIT 5000'' demoSchema creator None =
     \<lparr> is_valid = True, reason = None, sanitized_sql = Some ''DELETE FROM demo_orders LIMIT 1000'',
       operation_analysis = Some \<lparr> operation_type = DELETE, risk_level = critical,
         affected_tables = [''demo_orders''], affected_columns = [], estimated_rows = ''all'',
         warnings = [DeleteNoWhere], requires_confirmation = True \<rparr> \<rparr>
   \<and> detectOperationType ''DELETE FROM demo_orders LIMIT 5000'' = DELETE
   \<and> removeComments ''DELETE FROM demo_orders LIMIT 5000'' = ''DELETE FROM demo_orders LIMIT 5000''"
  by code_simp

lemma eval_orders_creator:
  "validateSQL ''SELECT * FROM demo_orders'' demoSchema creator (Some [''demo_users'']) =
     \<lparr> is_valid = True, reason = None, sanitized_sql = Some ''SELECT * FROM demo_orders LIMIT 100'',
       operation_analysis = Some \<lparr> operation_type = SELECT, risk_level = safe,
         affected_tables = [''demo_orders''], affected_columns = [], estimated_rows = ''multiple'',
         warnings = [], requires_confirmation = False \<rparr> \<rparr>
   \<and> extractTableNames ''SELECT * FROM demo_orders'' = [''demo_orders'']
   \<and> map str_toLowerCase [''demo_users''] = [''demo_users'']"
  by code_simp

lemma eval_orders_pieces:
  "str_trim ''SELECT * FROM demo_orders'' \<noteq> []
   \<and> \<not> hasMultipleStatements ''SELECT * FROM demo_orders''
   \<and> hasBlockedPatterns (removeComments ''SELECT * FROM demo_orders'') = None
   \<and> detectOperationType ''SELECT * FROM demo_orders'' = SELECT
   \<and> map (\<lambda>t. str_toLowerCase (table_name t)) demoSchema
       = [''demo_users'', ''demo_orders'', ''demo_products'']"
  by code_simp

lemma eval_select_1:
  "extractTableNames ''SELECT 1'' = []
   \<and> str_trim ''SELECT 1'' \<noteq> []
   \<and> \<not> hasMultipleStatements ''SELECT 1''
   \<and> hasBlockedPatterns (removeComments ''SELECT 1'') = None
   \<and> detectOperationType ''SELECT 1'' = SELECT
   \<and> enforceLimit (removeComments ''SELECT 1'') = ''SELECT 1 LIMIT 100''
   \<and> analyzeOperation (removeComments ''SELECT 1'') [] =
       \<lparr> operation_type = SELECT, risk_level = safe, affected_tables = [], affected_columns = [],
         estimated_rows = ''multiple'', warnings = [], requires_confirmation = False \<rparr>"
  by code_simp

lemma eval_select_now:
  "extractTableNames ''SELECT now();'' = []
   \<and> str_trim ''SELECT now();'' \<noteq> []
   \<and> \<not> hasMultipleStatements ''SELECT now();''
   \<and> hasBlockedPatterns (removeComments ''SELECT now();'') = None
   \<and> detectOperationType ''SELECT now();'' = SELECT
   \<and> enforceLimit (removeComments ''SELECT now();'') = ''SELECT now() LIMIT 100''"
  by code_simp

lemma eval_limit_in_literal:
  "validateSQL ''SELECT * FROM demo_users WHERE name = 'LIMIT 1' LIMIT 5000'' demoSchema user None =
     \<lparr> is_valid = True, reason = None,
       sanitized_sql = Some ''SELECT * FROM demo_users WHERE name = 'LIMIT 1' LIMIT 5000'',
       operation_analysis = Some \<lparr> operation_type = SELECT, risk_level = safe,
         affected_tables = [''demo_users''], affected_columns = [''name''],
         estimated_rows = ''multiple'', warnings = [], requires_confirmation = False \<rparr> \<rparr>"
  by code_simp

lemma eval_limit_literal_rewritten:
  "validateSQL ''SELECT * FROM demo_users WHERE name = 'LIMIT 5000' ORDER BY name'' demoSchema user None =
     \<lparr> is_valid = True, reason = None,
       sanitized_sql = Some ''SELECT * FROM demo_users WHERE name = 'LIMIT 1000' ORDER BY name'',
       operation_analysis = Some \<lparr> operation_type = SELECT, risk_level = safe,
         affected_tables = [''demo_users''], affected_columns = [''name''],
         estimated_rows = ''multiple'', warnings = [], requires_confirmation = False \<rparr> \<rparr>"
  by code_simp

lemma eval_two_trailing_semicolons:
  "validateSQL ''SELECT * FROM demo_users; ;'' demoSchema user None =
     \<lparr> is_valid = True, reason = None,
       sanitized_sql = Some ''SELECT * FROM demo_users;  LIMIT 100'',
       operation_analysis = Some \<lparr> operation_type = SELECT, risk_level = safe,
         affected_tables = [''demo_users''], affected_columns = [],
         estimated_rows = ''multiple'', warnings = [], requires_confirmation = False \<rparr> \<rparr>"
  by code_simp

lemma eval_update_nowhere:
  "validateSQL ''UPDATE demo_orders SET status = 'nowhere', total_amount = 0'' demoSchema creator None =
     \<lparr> is_valid = True, reason = None,
       sanitized_sql = Some ''UPDATE demo_orders SET status = 'nowhere', total_amount = 0'',
       operation_analysis = Some \<lparr> operation_type = UPDATE, risk_level = high,
         affected_tables = [''demo_orders''], affected_columns = [''status''],
         estimated_rows = ''multiple'', warnings = [ModifiesRecords],
         requires_confirmation = True \<rparr> \<rparr>"
  by code_simp

lemma eval_update_nowhere_clause:
  "detectOperationType ''UPDATE demo_orders SET status = 'nowhere', total_amount = 0'' = UPDATE
   \<and> \<not> spec_hasWhereClause ''UPDATE demo_orders SET status = 'nowhere', total_amount = 0''"
  by code_simp

lemma eval_delete_somewhere:
  "detectOperationType ''DELETE FROM somewhere'' = DELETE
   \<and> \<not> spec_hasWhereClause ''DELETE FROM somewhere''
   \<and> analyzeOperation ''DELETE FROM somewhere'' [] =
       \<lparr> operation_type = DELETE, risk_level = high, affected_tables = [''somewhere''],
         affected_columns = [], estimated_rows = ''multiple'', warnings = [DeletesRecords],
         requires_confirmation = True \<rparr>"
  by code_simp

lemma eval_stacked_split:
  \<open>spec_hasMultipleStatements ''SELECT 1 AS "x'y"; DELETE FROM demo_users; SELECT 'z' AS w''
   \<and> length (filter (\<lambda>s. 0 < length (str_trim s))
        (str_split (CHR '';'')
           (spec_emptyLiterals
              (removeComments ''SELECT 1 AS "x'y"; DELETE FROM demo_users; SELECT 'z' AS w'')))) = 3
   \<and> \<not> hasMultipleStatements ''SELECT 1 AS "x'y"; DELETE FROM demo_users; SELECT 'z' AS w''\<close>
  by code_simp

lemma eval_stacked_accepted:
  \<open>validateSQL ''SELECT 1 AS "x'y"; DELETE FROM demo_users; SELECT 'z' AS w'' demoSchema user None =
     \<lparr> is_valid = True, reason = None,
       sanitized_sql = Some ''SELECT 1 AS "x'y"; DELETE FROM demo_users; SELECT 'z' AS w LIMIT 100'',
       operation_analysis = Some \<lparr> operation_type = SELECT, risk_level = safe,
         affected_tables = [''demo_users''], affected_columns = [],
         estimated_rows = ''multiple'', warnings = [], requires_confirmation = False \<rparr> \<rparr>\<close>
  by code_simp

lemma eval_comment_survives:
  "validateSQL ''SELECT * FROM demo_users /* secret -- */'' demoSchema user None =
     \<lparr> is_valid = True, reason = None,
       sanitized_sql = Some ''SELECT * FROM demo_users /* secret LIMIT 100'',
       operation_analysis = Some \<lparr> operation_type = SELECT, risk_level = safe,
         affected_tables = [''demo_users''], affected_columns = [],
         estimated_rows = ''multiple'', warnings = [], requires_confirmation = False \<rparr> \<rparr>"
  by code_simp

lemma eval_comment_survives_text:
  "str_includes ''SELECT * FROM demo_users /* secret -- */'' ''/* secret -- */''
   \<and> str_includes ''SELECT * FROM demo_users /* secret LIMIT 100'' ''/* secret''"
  by code_simp

section \<open>Properties of the gate\<close>

text \<open>
  C7. Field-presence invariant of the result: for every statement, schema, role and
  allowlist, \<open>sanitized_sql\<close> and \<open>operation_analysis\<close> are present exactly when
  \<open>is_valid\<close> is true, and \<open>reason\<close> is present exactly when \<open>is_valid\<close> is false.
\<close>

theorem validateSQL_field_presence:
  "(sanitized_sql (validateSQL sql schema role allowedTables) \<noteq> None)
      = is_valid (validateSQL sql schema role allowedTables)
   \<and> (operation_analysis (validateSQL sql schema role allowedTables) \<noteq> None)
      = is_valid (validateSQL sql schema role allowedTables)
   \<and> (reason (validateSQL sql schema role allowedTables) \<noteq> None)
      = (\<not> is_valid (validateSQL sql schema role allowedTables))"
  by (simp add: validateSQL_def reject_def Let_def split: option.split)

text \<open>
  C8. Both roles are granted the same operations (SELECT, INSERT, UPDATE, DELETE): the
  role-permission check passes for \<open>creator\<close> exactly when it passes for \<open>user\<close>, and
  with no allowlist supplied a statement is valid for \<open>creator\<close> exactly when it is valid
  for \<open>user\<close>.
\<close>

theorem roles_equally_permitted:
  "ROLE_PERMISSIONS creator = [SELECT, INSERT, UPDATE, DELETE]
   \<and> ROLE_PERMISSIONS user = [SELECT, INSERT, UPDATE, DELETE]
   \<and> (opType \<in> set (ROLE_PERMISSIONS creator)) = (opType \<in> set (ROLE_PERMISSIONS user))
   \<and> is_valid (validateSQL sql schema creator None) = is_valid (validateSQL sql schema user None)"
  by (simp add: validateSQL_def reject_def Let_def ROLE_PERMISSIONS_def split: option.split)

text \<open>
  C1, as stated, fails. A statement of kind DDL is rejected, but not always with the DDL
  reason: the statement \<^verbatim>\<open>DROP TABLE a; DROP TABLE b\<close> is of kind DDL and is rejected by
  the multiple-statements check, which comes first and whose reason does not mention DDL.
\<close>

theorem ddl_reason_counterexample:
  "detectOperationType ''DROP TABLE a; DROP TABLE b'' = DDL
   \<and> validateSQL ''DROP TABLE a; DROP TABLE b'' demoSchema creator None = reject multipleReason
   \<and> reason (validateSQL ''DROP TABLE a; DROP TABLE b'' demoSchema creator None) \<noteq> Some ddlReason
   \<and> \<not> str_includes multipleReason ''DDL''"
  using eval_two_drops eval_reasons
    validateSQL_multiple [of "''DROP TABLE a; DROP TABLE b''" demoSchema creator None]
  by (simp add: reject_def)

text \<open>
  C1, amended. A statement is of kind DDL when its comment-stripped, upper-cased, trimmed
  text starts with one of the DDL keywords as a word, or holds one, as the start of a
  word, followed by white space and TABLE, INDEX, VIEW or DATABASE. Every statement whose
  classified kind is DDL is rejected (\<open>is_valid\<close> is
  false) for every role, schema and allowlist; the reason is the DDL reason whenever the
  statement passes the multiple-statements and blocked-pattern checks that precede the DDL
  check, and the reason of the first of these two checks that fails otherwise. In particular \<^verbatim>\<open>DROP TABLE demo_users\<close> is rejected with the DDL reason for every
  role, schema and allowlist.
\<close>

theorem ddl_always_rejected:
  "(detectOperationType sql = DDL) =
     list_ex (\<lambda>keyword. ddlLeading keyword (str_trim (str_toUpperCase (removeComments sql)))
                \<or> ddlObjectSearch keyword None (str_trim (str_toUpperCase (removeComments sql))))
       DDL_KEYWORDS
   \<and> (detectOperationType sql = DDL \<longrightarrow>
      \<not> is_valid (validateSQL sql schema role allowedTables)
      \<and> (hasMultipleStatements sql \<longrightarrow>
           validateSQL sql schema role allowedTables = reject multipleReason)
      \<and> (\<not> hasMultipleStatements sql
           \<and> hasBlockedPatterns (removeComments sql) = Some blockedPattern \<longrightarrow>
           validateSQL sql schema role allowedTables = reject (blockedReason blockedPattern))
      \<and> (\<not> hasMultipleStatements sql \<and> hasBlockedPatterns (removeComments sql) = None \<longrightarrow>
           validateSQL sql schema role allowedTables = reject ddlReason))
   \<and> validateSQL ''DROP TABLE demo_users'' schema role allowedTables = reject ddlReason"
  using eval_drop_table detect_ddl_iff [of sql]
    validateSQL_ddl_invalid [of sql schema role allowedTables]
    validateSQL_multiple [of sql schema role allowedTables]
    validateSQL_ddl_blocked [of sql blockedPattern schema role allowedTables]
    validateSQL_ddl_reason [of sql schema role allowedTables]
    validateSQL_ddl_reason [of "''DROP TABLE demo_users''" schema role allowedTables]
  by blast

text \<open>
  The amended C1 at one DDL statement for each reason: \<^verbatim>\<open>ALTER TABLE demo_users ADD age INT\<close>,
  \<^verbatim>\<open>DROP TABLE executions\<close> (blocked pattern EXEC) and \<^verbatim>\<open>DROP TABLE a; DROP TABLE b\<close>.
\<close>

theorem ddl_always_rejected_witness:
  "(detectOperationType ''ALTER TABLE demo_users ADD age INT'' = DDL
      \<and> \<not> hasMultipleStatements ''ALTER TABLE demo_users ADD age INT''
      \<and> hasBlockedPatterns (removeComments ''ALTER TABLE demo_users ADD age INT'') = None
      \<and> \<not> is_valid (validateSQL ''ALTER TABLE demo_users ADD age INT'' demoSchema user
                          (Some [''demo_users'']))
      \<and> validateSQL ''ALTER TABLE demo_users ADD age INT'' demoSchema user (Some [''demo_users''])
          = reject ddlReason)
   \<and> (detectOperationType ''DROP TABLE executions'' = DDL
      \<and> \<not> hasMultipleStatements ''DROP TABLE executions''
      \<and> hasBlockedPatterns (removeComments ''DROP TABLE executions'') = Some ''EXEC''
      \<and> validateSQL ''DROP TABLE executions'' demoSchema creator None
          = reject (blockedReason ''EXEC''))
   \<and> (detectOperationType ''DROP TABLE a; DROP TABLE b'' = DDL
      \<and> hasMultipleStatements ''DROP TABLE a; DROP TABLE b''
      \<and> validateSQL ''DROP TABLE a; DROP TABLE b'' demoSchema creator None
          = reject multipleReason)"
  using eval_alter_table eval_drop_executions eval_two_drops
    ddl_always_rejected [of "''ALTER TABLE demo_users ADD age INT''" demoSchema user
      "Some [''demo_users'']" "''EXEC''"]
    ddl_always_rejected [of "''DROP TABLE executions''" demoSchema creator None "''EXEC''"]
    ddl_always_rejected [of "''DROP TABLE a; DROP TABLE b''" demoSchema creator None "''EXEC''"]
  by blast

text \<open>
  C2 is what the splitter is for (\<^verbatim>\<open>Check for multiple statements\<close>), and the code misses
  it: the single quotes are removed over the whole text before the double quotes are
  looked at. In \<^verbatim>\<open>SELECT 1 AS "x'y"; DELETE FROM demo_users; SELECT 'z' AS w\<close> the quote inside
  the double-quoted name pairs with the opening quote of \<^verbatim>\<open>'z'\<close>, and both semicolons go
  with the text between them. With its literals emptied the statement splits into three
  fragments; the code counts one and accepts the statement as a safe SELECT.
\<close>

theorem stacked_statements_accepted:
  \<open>spec_hasMultipleStatements ''SELECT 1 AS "x'y"; DELETE FROM demo_users; SELECT 'z' AS w''
   \<and> length (filter (\<lambda>s. 0 < length (str_trim s))
        (str_split (CHR '';'')
           (spec_emptyLiterals
              (removeComments ''SELECT 1 AS "x'y"; DELETE FROM demo_users; SELECT 'z' AS w'')))) = 3
   \<and> \<not> hasMultipleStatements ''SELECT 1 AS "x'y"; DELETE FROM demo_users; SELECT 'z' AS w''
   \<and> validateSQL ''SELECT 1 AS "x'y"; DELETE FROM demo_users; SELECT 'z' AS w'' demoSchema user None =
     \<lparr> is_valid = True, reason = None,
       sanitized_sql = Some ''SELECT 1 AS "x'y"; DELETE FROM demo_users; SELECT 'z' AS w LIMIT 100'',
       operation_analysis = Some \<lparr> operation_type = SELECT, risk_level = safe,
         affected_tables = [''demo_users''], affected_columns = [],
         estimated_rows = ''multiple'', warnings = [], requires_confirmation = False \<rparr> \<rparr>\<close>
  using eval_stacked_split eval_stacked_accepted by blast

text \<open>
  C3 is what the warnings of the code say (\<^verbatim>\<open>NO WHERE CLAUSE - This will update ALL rows\<close>),
  and the code misses it: the test is whether the letters WHERE occur anywhere in the
  upper-cased text. \<^verbatim>\<open>UPDATE demo_orders SET status = 'nowhere', total_amount = 0\<close> and
  \<^verbatim>\<open>DELETE FROM somewhere\<close> have no WHERE clause and are rated \<open>high\<close> with estimated rows
  \<open>multiple\<close>, not \<open>critical\<close> and \<open>all\<close>.
\<close>

theorem write_without_where_rated_high:
  "detectOperationType ''UPDATE demo_orders SET status = 'nowhere', total_amount = 0'' = UPDATE
   \<and> \<not> spec_hasWhereClause ''UPDATE demo_orders SET status = 'nowhere', total_amount = 0''
   \<and> validateSQL ''UPDATE demo_orders SET status = 'nowhere', total_amount = 0'' demoSchema creator None =
     \<lparr> is_valid = True, reason = None,
       sanitized_sql = Some ''UPDATE demo_orders SET status = 'nowhere', total_amount = 0'',
       operation_analysis = Some \<lparr> operation_type = UPDATE, risk_level = high,
         affected_tables = [''demo_orders''], affected_columns = [''status''],
         estimated_rows = ''multiple'', warnings = [ModifiesRecords],
         requires_confirmation = True \<rparr> \<rparr>
   \<and> detectOperationType ''DELETE FROM somewhere'' = DELETE
   \<and> \<not> spec_hasWhereClause ''DELETE FROM somewhere''
   \<and> analyzeOperation ''DELETE FROM somewhere'' [] =
       \<lparr> operation_type = DELETE, risk_level = high, affected_tables = [''somewhere''],
         affected_columns = [], estimated_rows = ''multiple'', warnings = [DeletesRecords],
         requires_confirmation = True \<rparr>"
  using eval_update_nowhere eval_update_nowhere_clause eval_delete_somewhere by blast

text \<open>
  C4 is what the code promises (\<^verbatim>\<open>Enforce LIMIT for SELECT queries\<close>, \<^verbatim>\<open>Maximum row limit\<close>),
  and the code misses it in three accepted SELECT statements. Only the leftmost numeric
  LIMIT is read: \<^verbatim>\<open>SELECT * FROM demo_users WHERE name = 'LIMIT 1' LIMIT 5000\<close> keeps its
  \<^verbatim>\<open>LIMIT 5000\<close>, and in \<^verbatim>\<open>SELECT * FROM demo_users WHERE name = 'LIMIT 5000' ORDER BY name\<close>
  the literal is rewritten and no limit is appended. Only the last run of semicolons is
  cut: \<^verbatim>\<open>SELECT * FROM demo_users; ;\<close> keeps a semicolon in front of the appended limit.
\<close>

theorem limit_cap_bypassed:
  "validateSQL ''SELECT * FROM demo_users WHERE name = 'LIMIT 1' LIMIT 5000'' demoSchema user None =
     \<lparr> is_valid = True, reason = None,
       sanitized_sql = Some ''SELECT * FROM demo_users WHERE name = 'LIMIT 1' LIMIT 5000'',
       operation_analysis = Some \<lparr> operation_type = SELECT, risk_level = safe,
         affected_tables = [''demo_users''], affected_columns = [''name''],
         estimated_rows = ''multiple'', warnings = [], requires_confirmation = False \<rparr> \<rparr>
   \<and> validateSQL ''SELECT * FROM demo_users WHERE name = 'LIMIT 5000' ORDER BY name'' demoSchema user None =
     \<lparr> is_valid = True, reason = None,
       sanitized_sql = Some ''SELECT * FROM demo_users WHERE name = 'LIMIT 1000' ORDER BY name'',
       operation_analysis = Some \<lparr> operation_type = SELECT, risk_level = safe,
         affected_tables = [''demo_users''], affected_columns = [''name''],
         estimated_rows = ''multiple'', warnings = [], requires_confirmation = False \<rparr> \<rparr>
   \<and> validateSQL ''SELECT * FROM demo_users; ;'' demoSchema user None =
     \<lparr> is_valid = True, reason = None,
       sanitized_sql = Some ''SELECT * FROM demo_users;  LIMIT 100'',
       operation_analysis = Some \<lparr> operation_type = SELECT, risk_level = safe,
         affected_tables = [''demo_users''], affected_columns = [],
         estimated_rows = ''multiple'', warnings = [], requires_confirmation = False \<rparr> \<rparr>"
  using eval_limit_in_literal eval_limit_literal_rewritten eval_two_trailing_semicolons by blast

text \<open>
  C5 is what the comments of the code promise (\<^verbatim>\<open>Apply LIMIT enforcement (SELECT only)\<close>),
  and the code does otherwise: \<^verbatim>\<open>enforceLimit\<close> rewrites an existing numeric LIMIT above
  1000 before it looks at the kind of the statement. The accepted DELETE statement
  \<^verbatim>\<open>DELETE FROM demo_orders LIMIT 5000\<close> comes back as \<^verbatim>\<open>DELETE FROM demo_orders LIMIT 1000\<close>.
\<close>

theorem limit_clamped_on_delete:
  "detectOperationType ''DELETE FROM demo_orders LIMIT 5000'' = DELETE
   \<and> is_valid (validateSQL ''DELETE FROM demo_orders LIMIT 5000'' demoSchema creator None)
   \<and> removeComments ''DELETE FROM demo_orders LIMIT 5000'' = ''DELETE FROM demo_orders LIMIT 5000''
   \<and> sanitized_sql (validateSQL ''DELETE FROM demo_orders LIMIT 5000'' demoSchema creator None)
       = Some ''DELETE FROM demo_orders LIMIT 1000''"
  using eval_delete_5000 by simp

text \<open>
  C6, as stated, fails. For role \<open>creator\<close> the allowlist is not consulted:
  \<^verbatim>\<open>SELECT * FROM demo_orders\<close> is valid although the allowlist holds \<^verbatim>\<open>demo_users\<close> only.
\<close>

theorem allowlist_creator_counterexample:
  "extractTableNames ''SELECT * FROM demo_orders'' = [''demo_orders'']
   \<and> ''demo_orders'' \<notin> set (map str_toLowerCase [''demo_users''])
   \<and> is_valid (validateSQL ''SELECT * FROM demo_orders'' demoSchema creator (Some [''demo_users'']))"
  using eval_orders_creator by simp

text \<open>
  C6, amended. For role \<open>user\<close>, whenever an allowlist is supplied, a statement one of
  whose extracted table names is absent from the lower-cased allowlist is rejected; when
  the statement passes the earlier checks (not blank, one statement, no blocked pattern,
  permitted kind, every table in the schema) the reason names a denied table. For role
  \<open>creator\<close> the result is the one obtained with no allowlist.
\<close>

theorem allowlist_user_only:
  "(t \<in> set (extractTableNames sql) \<and> t \<notin> set (map str_toLowerCase allowed) \<longrightarrow>
      \<not> is_valid (validateSQL sql schema user (Some allowed))
      \<and> (str_trim sql \<noteq> [] \<and> \<not> hasMultipleStatements sql
           \<and> hasBlockedPatterns (removeComments sql) = None
           \<and> detectOperationType sql \<in> set (ROLE_PERMISSIONS user)
           \<and> set (extractTableNames sql) \<subseteq> set (map (\<lambda>t. str_toLowerCase (table_name t)) schema) \<longrightarrow>
         (\<exists>t'. t' \<in> set (extractTableNames sql) \<and> t' \<notin> set (map str_toLowerCase allowed)
              \<and> validateSQL sql schema user (Some allowed) = reject (accessReason t'))))
   \<and> validateSQL sql schema creator (Some allowed) = validateSQL sql schema creator None"
  using validateSQL_user_allowlist [of t sql allowed schema]
    validateSQL_user_allowlist_reason [of t sql allowed schema]
    validateSQL_creator_allowlist [of sql schema "Some allowed"]
  by blast

text \<open>The amended C6 at \<^verbatim>\<open>SELECT * FROM demo_orders\<close> with the allowlist \<^verbatim>\<open>demo_users\<close>.\<close>

theorem allowlist_user_only_witness:
  "''demo_orders'' \<in> set (extractTableNames ''SELECT * FROM demo_orders'')
   \<and> ''demo_orders'' \<notin> set (map str_toLowerCase [''demo_users''])
   \<and> str_trim ''SELECT * FROM demo_orders'' \<noteq> []
   \<and> \<not> hasMultipleStatements ''SELECT * FROM demo_orders''
   \<and> hasBlockedPatterns (removeComments ''SELECT * FROM demo_orders'') = None
   \<and> detectOperationType ''SELECT * FROM demo_orders'' \<in> set (ROLE_PERMISSIONS user)
   \<and> set (extractTableNames ''SELECT * FROM demo_orders'')
       \<subseteq> set (map (\<lambda>t. str_toLowerCase (table_name t)) demoSchema)
   \<and> \<not> is_valid (validateSQL ''SELECT * FROM demo_orders'' demoSchema user (Some [''demo_users'']))
   \<and> validateSQL ''SELECT * FROM demo_orders'' demoSchema user (Some [''demo_users''])
       = reject (accessReason ''demo_orders'')"
proof -
  have h: "''demo_orders'' \<in> set (extractTableNames ''SELECT * FROM demo_orders'')
   \<and> ''demo_orders'' \<notin> set (map str_toLowerCase [''demo_users''])
   \<and> str_trim ''SELECT * FROM demo_orders'' \<noteq> []
   \<and> \<not> hasMultipleStatements ''SELECT * FROM demo_orders''
   \<and> hasBlockedPatterns (removeComments ''SELECT * FROM demo_orders'') = None
   \<and> detectOperationType ''SELECT * FROM demo_orders'' \<in> set (ROLE_PERMISSIONS user)
   \<and> set (extractTableNames ''SELECT * FROM demo_orders'')
       \<subseteq> set (map (\<lambda>t. str_toLowerCase (table_name t)) demoSchema)"
    using eval_orders_creator eval_orders_pieces select_permitted [of user] by simp
  have one: "\<And>t'. t' \<in> set (extractTableNames ''SELECT * FROM demo_orders'') \<Longrightarrow> t' = ''demo_orders''"
    using eval_orders_creator by simp
  show ?thesis
    using h one
      allowlist_user_only [of "''demo_orders''" "''SELECT * FROM demo_orders''" "[''demo_users'']"
        demoSchema]
    by metis
qed

text \<open>
  C9 is what the stripper is for (\<^verbatim>\<open>Remove SQL comments to prevent injection attacks\<close>), and
  the code misses it: the pass for \<^verbatim>\<open>--\<close> runs first and takes the closing \<^verbatim>\<open>*/\<close> of a
  block comment with it, so the block pattern finds nothing. For the accepted statement
  \<^verbatim>\<open>SELECT * FROM demo_users /* secret -- */\<close> the sanitized text still holds the opener and
  the text of the comment, with the limit appended behind them.
\<close>

theorem comment_text_survives:
  "str_includes ''SELECT * FROM demo_users /* secret -- */'' ''/* secret -- */''
   \<and> validateSQL ''SELECT * FROM demo_users /* secret -- */'' demoSchema user None =
     \<lparr> is_valid = True, reason = None,
       sanitized_sql = Some ''SELECT * FROM demo_users /* secret LIMIT 100'',
       operation_analysis = Some \<lparr> operation_type = SELECT, risk_level = safe,
         affected_tables = [''demo_users''], affected_columns = [],
         estimated_rows = ''multiple'', warnings = [], requires_confirmation = False \<rparr> \<rparr>
   \<and> str_includes ''SELECT * FROM demo_users /* secret LIMIT 100'' ''/* secret''"
  using eval_comment_survives eval_comment_survives_text by blast

text \<open>
  C10. For every statement from which no table name is extracted, the table-existence,
  allowlist and column-existence checks reject nothing: once the statement passes the
  checks before them, the result is the success result, for every schema and allowlist;
  in every case the result is the one obtained with the empty schema and no allowlist.
  In particular \<^verbatim>\<open>SELECT 1\<close> is valid with sanitized text \<^verbatim>\<open>SELECT 1 LIMIT 100\<close> for every
  schema, role and allowlist.
\<close>

theorem no_tables_checks_vacuous:
  "(extractTableNames sql = [] \<and> str_trim sql \<noteq> [] \<and> \<not> hasMultipleStatements sql
      \<and> hasBlockedPatterns (removeComments sql) = None
      \<and> detectOperationType sql \<in> set (ROLE_PERMISSIONS role) \<longrightarrow>
        validateSQL sql schema role allowedTables =
          \<lparr> is_valid = True, reason = None,
            sanitized_sql = Some (enforceLimit (removeComments sql)),
            operation_analysis = Some (analyzeOperation (removeComments sql) schema) \<rparr>)
   \<and> (extractTableNames sql = [] \<longrightarrow>
        validateSQL sql schema role allowedTables = validateSQL sql [] role None)
   \<and> validateSQL ''SELECT 1'' schema role allowedTables =
       \<lparr> is_valid = True, reason = None, sanitized_sql = Some ''SELECT 1 LIMIT 100'',
         operation_analysis = Some \<lparr> operation_type = SELECT, risk_level = safe,
           affected_tables = [], affected_columns = [], estimated_rows = ''multiple'',
           warnings = [], requires_confirmation = False \<rparr> \<rparr>"
proof -
  have "validateSQL ''SELECT 1'' schema role allowedTables =
       \<lparr> is_valid = True, reason = None, sanitized_sql = Some ''SELECT 1 LIMIT 100'',
         operation_analysis = Some \<lparr> operation_type = SELECT, risk_level = safe,
           affected_tables = [], affected_columns = [], estimated_rows = ''multiple'',
           warnings = [], requires_confirmation = False \<rparr> \<rparr>"
    using eval_select_1 select_permitted [of role]
      validateSQL_no_tables [of "''SELECT 1''" role schema allowedTables]
      analyze_schema_free [of "removeComments ''SELECT 1''" schema]
    by simp
  then show ?thesis
    using validateSQL_no_tables [of sql role schema allowedTables]
      validateSQL_no_tables_free [of sql schema role allowedTables]
    by blast
qed

text \<open>C10 at \<^verbatim>\<open>SELECT now();\<close>, empty schema, role \<open>user\<close>, empty allowlist.\<close>

theorem no_tables_checks_vacuous_witness:
  "extractTableNames ''SELECT now();'' = [] \<and> str_trim ''SELECT now();'' \<noteq> []
   \<and> \<not> hasMultipleStatements ''SELECT now();''
   \<and> hasBlockedPatterns (removeComments ''SELECT now();'') = None
   \<and> detectOperationType ''SELECT now();'' \<in> set (ROLE_PERMISSIONS user)
   \<and> is_valid (validateSQL ''SELECT now();'' [] user (Some []))
   \<and> sanitized_sql (validateSQL ''SELECT now();'' [] user (Some [])) = Some ''SELECT now() LIMIT 100''"
proof -
  have h: "extractTableNames ''SELECT now();'' = [] \<and> str_trim ''SELECT now();'' \<noteq> []
   \<and> \<not> hasMultipleStatements ''SELECT now();''
   \<and> hasBlockedPatterns (removeComments ''SELECT now();'') = None
   \<and> detectOperationType ''SELECT now();'' \<in> set (ROLE_PERMISSIONS user)"
    using eval_select_now select_permitted [of user] by simp
  have "validateSQL ''SELECT now();'' [] user (Some []) =
          \<lparr> is_valid = True, reason = None,
            sanitized_sql = Some (enforceLimit (removeComments ''SELECT now();'')),
            operation_analysis = Some (analyzeOperation (removeComments ''SELECT now();'') []) \<rparr>"
    using h no_tables_checks_vacuous [of "''SELECT now();''" user "[]" "Some []"] by blast
  then show ?thesis using h eval_select_now by simp
qed

end
